theory Spec2Isabelle
  imports Complex_Main "HOL-Library.AList" "HOL-Library.Sublist" "HOL-Library.Product_Lexorder"
    "HOL-Library.Multiset" "HOL-Library.Log_Nat"
begin

section \<open>Data model of ExpenseGrabber.py\<close>

text \<open>
  A \<^verbatim>\<open>datetime\<close> built by \<^verbatim>\<open>strptime(_, "%m/%d/%Y")\<close> has no time of day
  and no time zone, so it is the triple (year, month, day) of Python ints. Python compares
  two such values field by field in that order, which is the lexicographic order of the triple.
\<close>

type_synonym date = "int \<times> int \<times> int"

definition date_month :: "date \<Rightarrow> int" where
  "date_month d = fst (snd d)"

text \<open>
  A row of \<^verbatim>\<open>csv.reader\<close> is a list of strings. An entry of
  \<^verbatim>\<open>_transactions\<close> is the tuple (date, description, category, amount).
  The amount is the value of \<^verbatim>\<open>float(...)\<close>, a double. A finite double is a
  real number, and it is modelled as that number: comparing two doubles and taking the
  absolute value of one are exact, and adding two doubles is not (see \<open>py_fadd\<close> below).
\<close>

type_synonym row = "string list"

type_synonym transaction = "date \<times> string \<times> string \<times> real"

definition t_date :: "transaction \<Rightarrow> date" where
  "t_date t = fst t"

definition t_description :: "transaction \<Rightarrow> string" where
  "t_description t = fst (snd t)"

definition t_category :: "transaction \<Rightarrow> string" where
  "t_category t = fst (snd (snd t))"

definition t_amount :: "transaction \<Rightarrow> real" where
  "t_amount t = snd (snd (snd t))"

text \<open>The exceptions that the program lets escape.\<close>

datatype error = IndexError | ValueError | EOFError | FileNotFoundError

text \<open>
  The object \<^verbatim>\<open>self\<close>. The dict \<^verbatim>\<open>categories\<close> is an association list
  in insertion order with distinct keys, as a Python dict is. The field \<open>console\<close> is not
  an attribute of the class: it holds the lines that \<^verbatim>\<open>input()\<close> has still to
  read, so that the prompt of \<^verbatim>\<open>add_category\<close> is a function of the state.
  What the program prints is not modelled.
\<close>

record grabber =
  transactions :: "transaction list"
  MONTHLY_COSTS :: "string list"
  categories :: "(string \<times> string) list"
  interactive :: bool
  console :: "string list"

definition ExpenseGrabber :: "string list \<Rightarrow> (string \<times> string) list \<Rightarrow> bool \<Rightarrow> string list \<Rightarrow> grabber" where
  "ExpenseGrabber monthly_costs cats inter_flag inp =
     \<lparr>transactions = [], MONTHLY_COSTS = monthly_costs, categories = cats,
      interactive = inter_flag, console = inp\<rparr>"

section \<open>Strings, dicts and lists of Python\<close>

text \<open>
  \<^verbatim>\<open>s in t\<close> on strings: \<open>s\<close> occurs in \<open>t\<close> as a contiguous piece.
\<close>

fun str_in :: "string \<Rightarrow> string \<Rightarrow> bool" where
  "str_in s [] = (s = [])"
| "str_in s (c # cs) = (prefix s (c # cs) \<or> str_in s cs)"

text \<open>
  \<^verbatim>\<open>t.split(sep)\<close> for a separator of one character: the pieces between the
  separators, never an empty list.
\<close>

fun split_chr :: "char \<Rightarrow> string \<Rightarrow> string list" where
  "split_chr sep [] = [[]]"
| "split_chr sep (c # cs) =
     (if c = sep then [] # split_chr sep cs
      else (case split_chr sep cs of
              [] \<Rightarrow> [[c]]
            | w # ws \<Rightarrow> (c # w) # ws))"

text \<open>
  \<^verbatim>\<open>str.isspace\<close> on one character, for the code points below 256 that a
  \<^typ>\<open>char\<close> holds, and \<^verbatim>\<open>t.strip()\<close>.
\<close>

definition py_isspace :: "char \<Rightarrow> bool" where
  "py_isspace c =
     (let n = (of_char c :: nat)
      in (9 \<le> n \<and> n \<le> 13) \<or> (28 \<le> n \<and> n \<le> 32) \<or> n = 133 \<or> n = 160)"

definition strip :: "string \<Rightarrow> string" where
  "strip t = rev (dropWhile py_isspace (rev (dropWhile py_isspace t)))"

text \<open>\<^verbatim>\<open>d.get(k, default)\<close>; \<^verbatim>\<open>d[k] = v\<close> is \<^const>\<open>AList.update\<close>.\<close>

definition dict_get :: "(string \<times> string) list \<Rightarrow> string \<Rightarrow> string \<Rightarrow> string" where
  "dict_get d k dflt = (case map_of d k of None \<Rightarrow> dflt | Some v \<Rightarrow> v)"

text \<open>
  \<^verbatim>\<open>xs[i]\<close> for a Python int \<open>i\<close>: an index from \<open>-len(xs)\<close> to \<open>-1\<close>
  counts from the end, and an index outside \<open>-len(xs) .. len(xs) - 1\<close> raises IndexError
  (here \<open>None\<close>).
\<close>

definition py_index :: "'a list \<Rightarrow> int \<Rightarrow> 'a option" where
  "py_index xs i =
     (if 0 \<le> i \<and> i < int (length xs) then Some (xs ! nat i)
      else if - int (length xs) \<le> i \<and> i < 0 then Some (xs ! nat (int (length xs) + i))
      else None)"

section \<open>The library functions the program calls\<close>

text \<open>
  The program calls four functions of Python whose results depend on more than this
  repository fixes: \<^verbatim>\<open>datetime.strptime(_, format)\<close>, \<^verbatim>\<open>float(_)\<close>,
  \<^verbatim>\<open>int(_)\<close> and \<^verbatim>\<open>list(set(_))\<close> (whose order follows the hashes of
  the strings). They are parameters of the model: \<open>None\<close> stands for the ValueError that
  the first three raise on a string they do not accept. Every general theorem below holds
  for all four functions, whatever they are. The values \<^verbatim>\<open>inf\<close> and \<^verbatim>\<open>nan\<close>
  that \<^verbatim>\<open>float\<close> returns for the strings of these names are not real numbers and are
  outside the model.

  The fifth parameter is the addition of two doubles, \<^verbatim>\<open>x + y\<close>: the sum of the two
  numbers, rounded to a double. \<open>None\<close> stands for a result that is not finite: the
  rounded sum is too large for a double and Python returns \<^verbatim>\<open>inf\<close>.
\<close>

record pylib =
  py_strptime :: "string \<Rightarrow> string \<Rightarrow> date option"
  py_float :: "string \<Rightarrow> real option"
  py_int :: "string \<Rightarrow> int option"
  py_list_set :: "string list \<Rightarrow> string list"
  py_fadd :: "real \<Rightarrow> real \<Rightarrow> real option"

section \<open>add_category and get_unique_categories\<close>

text \<open>\<^verbatim>\<open>return list(set(self.categories.values()))\<close>\<close>

definition get_unique_categories :: "pylib \<Rightarrow> grabber \<Rightarrow> string list" where
  "get_unique_categories L s = py_list_set L (map snd (categories s))"

text \<open>
  \<^verbatim>\<open>
  unique_categories = self.get_unique_categories()
  category = input("Category: ")
  try:
      self.categories[transaction] = unique_categories[int(category)]
  except:
      self.categories[transaction] = category
  \<close>
  \<^verbatim>\<open>input\<close> raises EOFError outside the \<^verbatim>\<open>try\<close> when no line is left.
\<close>

definition add_category :: "pylib \<Rightarrow> string \<Rightarrow> grabber \<Rightarrow> error + grabber" where
  "add_category L transaction s =
     (let unique_categories = get_unique_categories L s in
      case console s of
        [] \<Rightarrow> Inl EOFError
      | category # rest \<Rightarrow>
          Inr (s\<lparr>console := rest,
                categories := AList.update transaction
                  (case py_int L category of
                     None \<Rightarrow> category
                   | Some i \<Rightarrow>
                       (case py_index unique_categories i of
                          None \<Rightarrow> category
                        | Some chosen \<Rightarrow> chosen))
                  (categories s)\<rparr>))"

section \<open>parse_rbc\<close>

text \<open>
  Lines 33 to 39, the category of a Bank A row:
  \<^verbatim>\<open>
  category = self.categories.get(row[4], "Unknown")
  if category == "Unknown" and self.interactive:
      self.add_category(row[4])
      category = self.categories.get(row[4], "Unknown")
  else:
      self.categories[row[4]] = category
  \<close>
  The result is the local variable \<^verbatim>\<open>category\<close> and the state.
\<close>

definition rbc_category :: "pylib \<Rightarrow> string \<Rightarrow> grabber \<Rightarrow> error + (string \<times> grabber)" where
  "rbc_category L description s =
     (let category = dict_get (categories s) description ''Unknown'' in
      if category = ''Unknown'' \<and> interactive s then
        (case add_category L description s of
           Inl e \<Rightarrow> Inl e
         | Inr s1 \<Rightarrow> Inr (dict_get (categories s1) description ''Unknown'', s1))
      else Inr (category, s\<lparr>categories := AList.update description category (categories s)\<rparr>))"

text \<open>
  The body of the loop of \<^verbatim>\<open>parse_rbc\<close> on one row. \<^verbatim>\<open>row[6]\<close> is read
  first and raises IndexError on a row of fewer than seven fields. The condition of line 42
  to 44 is an \<^verbatim>\<open>and\<close> chain: \<^verbatim>\<open>float(row[6])\<close> is evaluated only when the
  month is the target month.
\<close>

definition rbc_row :: "pylib \<Rightarrow> int \<Rightarrow> row \<Rightarrow> grabber \<Rightarrow> error + grabber" where
  "rbc_row L month row s =
     (if length row \<le> 6 then Inl IndexError
      else if row ! 6 = ''CAD$'' then Inr s
      else (case py_strptime L (row ! 2) ''%m/%d/%Y'' of
              None \<Rightarrow> Inl ValueError
            | Some date \<Rightarrow>
               (case rbc_category L (row ! 4) s of
                  Inl e \<Rightarrow> Inl e
                | Inr (category, s1) \<Rightarrow>
                    if date_month date = month then
                      (case py_float L (row ! 6) of
                         None \<Rightarrow> Inl ValueError
                       | Some amount \<Rightarrow>
                           if amount < 0 \<and> list_all (\<lambda>c. \<not> str_in c (row ! 4)) (MONTHLY_COSTS s1)
                           then Inr (s1\<lparr>transactions :=
                                        transactions s1 @ [(date, row ! 4, category, amount)]\<rparr>)
                           else Inr s1)
                    else Inr s1)))"

fun parse_rbc_rows :: "pylib \<Rightarrow> int \<Rightarrow> row list \<Rightarrow> grabber \<Rightarrow> error + grabber" where
  "parse_rbc_rows L month [] s = Inr s"
| "parse_rbc_rows L month (row # rows) s =
     (case rbc_row L month row s of
        Inl e \<Rightarrow> Inl e
      | Inr s1 \<Rightarrow> parse_rbc_rows L month rows s1)"

text \<open>
  The files that the parsers open are given by the rows that \<^verbatim>\<open>csv.reader\<close>
  yields for them; a name with no file raises FileNotFoundError.
\<close>

type_synonym csv_files = "string \<Rightarrow> row list option"

definition parse_rbc :: "pylib \<Rightarrow> csv_files \<Rightarrow> string \<Rightarrow> int \<Rightarrow> grabber \<Rightarrow> error + grabber" where
  "parse_rbc L fs file month s =
     (case fs file of
        None \<Rightarrow> Inl FileNotFoundError
      | Some rows \<Rightarrow> parse_rbc_rows L month rows s)"

section \<open>parse_tangerine\<close>

text \<open>
  Lines 62 to 70, the category of a Bank B row:
  \<^verbatim>\<open>
  category = self.categories.get(row[2], "Unknown")
  if category == "Unknown":
      category = row[3].split(":")[-1].strip()
      if category == "" and self.interactive:
          self.add_category(row[2])
          category = self.categories.get(row[2], "Unknown")
      else:
          category = "Unknown"
      self.categories[row[2]] = category
  \<close>
  The caller has read \<^verbatim>\<open>row[2]\<close>; \<^verbatim>\<open>row[3]\<close> raises IndexError on
  a row of three fields.
\<close>

definition tangerine_category :: "pylib \<Rightarrow> row \<Rightarrow> grabber \<Rightarrow> error + (string \<times> grabber)" where
  "tangerine_category L row s =
     (let category = dict_get (categories s) (row ! 2) ''Unknown'' in
      if category = ''Unknown'' then
        if length row \<le> 3 then Inl IndexError
        else
          (let category = strip (last (split_chr CHR '':'' (row ! 3))) in
           if category = [] \<and> interactive s then
             (case add_category L (row ! 2) s of
                Inl e \<Rightarrow> Inl e
              | Inr s1 \<Rightarrow>
                  (let category = dict_get (categories s1) (row ! 2) ''Unknown''
                   in Inr (category,
                           s1\<lparr>categories := AList.update (row ! 2) category (categories s1)\<rparr>)))
           else
             (let category = ''Unknown''
              in Inr (category,
                      s\<lparr>categories := AList.update (row ! 2) category (categories s)\<rparr>)))
      else Inr (category, s))"

text \<open>
  The body of the loop of \<^verbatim>\<open>parse_tangerine\<close> on one row. The transaction is
  inserted at index 0; \<^verbatim>\<open>float(row[4])\<close> is evaluated only when the row is
  inserted.
\<close>

definition tangerine_row :: "pylib \<Rightarrow> int \<Rightarrow> row \<Rightarrow> grabber \<Rightarrow> error + grabber" where
  "tangerine_row L month row s =
     (if length row = 0 then Inl IndexError
      else if row ! 0 = ''Transaction date'' then Inr s
      else (case py_strptime L (row ! 0) ''%m/%d/%Y'' of
              None \<Rightarrow> Inl ValueError
            | Some date \<Rightarrow>
                if length row \<le> 2 then Inl IndexError
                else
                  (case tangerine_category L row s of
                     Inl e \<Rightarrow> Inl e
                   | Inr (category, s1) \<Rightarrow>
                       if date_month date = month \<and> row ! 1 = ''DEBIT'' then
                         if length row \<le> 4 then Inl IndexError
                         else
                           (case py_float L (row ! 4) of
                              None \<Rightarrow> Inl ValueError
                            | Some amount \<Rightarrow>
                                Inr (s1\<lparr>transactions :=
                                          (date, row ! 2, category, amount) # transactions s1\<rparr>))
                       else Inr s1)))"

fun parse_tangerine_rows :: "pylib \<Rightarrow> int \<Rightarrow> row list \<Rightarrow> grabber \<Rightarrow> error + grabber" where
  "parse_tangerine_rows L month [] s = Inr s"
| "parse_tangerine_rows L month (row # rows) s =
     (case tangerine_row L month row s of
        Inl e \<Rightarrow> Inl e
      | Inr s1 \<Rightarrow> parse_tangerine_rows L month rows s1)"

definition parse_tangerine :: "pylib \<Rightarrow> csv_files \<Rightarrow> string \<Rightarrow> int \<Rightarrow> grabber \<Rightarrow> error + grabber" where
  "parse_tangerine L fs file month s =
     (case fs file of
        None \<Rightarrow> Inl FileNotFoundError
      | Some rows \<Rightarrow> parse_tangerine_rows L month rows s)"

section \<open>process_transactions\<close>

text \<open>
  \<^verbatim>\<open>
  for file, bank in enumerate(banks):
      match bank:
          case "rbc":
              self.parse_rbc(files[file], date.month)
          case "tangerine":
              self.parse_tangerine(files[file], date.month)
  \<close>
  The loop variable \<^verbatim>\<open>file\<close> is the index \<open>i\<close>; \<^verbatim>\<open>files[file]\<close> is
  read only in the two cases and raises IndexError when there are fewer files than banks.
  A bank of another name is passed over.
\<close>

fun parse_banks ::
  "pylib \<Rightarrow> csv_files \<Rightarrow> string list \<Rightarrow> string list \<Rightarrow> nat \<Rightarrow> int \<Rightarrow> grabber \<Rightarrow> error + grabber" where
  "parse_banks L fs [] files i month s = Inr s"
| "parse_banks L fs (bank # banks) files i month s =
     (if bank = ''rbc'' then
        if length files \<le> i then Inl IndexError
        else (case parse_rbc L fs (files ! i) month s of
                Inl e \<Rightarrow> Inl e
              | Inr s1 \<Rightarrow> parse_banks L fs banks files (Suc i) month s1)
      else if bank = ''tangerine'' then
        if length files \<le> i then Inl IndexError
        else (case parse_tangerine L fs (files ! i) month s of
                Inl e \<Rightarrow> Inl e
              | Inr s1 \<Rightarrow> parse_banks L fs banks files (Suc i) month s1)
      else parse_banks L fs banks files (Suc i) month s)"

text \<open>
  \<^verbatim>\<open>self._transactions.sort(key=lambda transaction: transaction[0])\<close>:
  \<^verbatim>\<open>list.sort\<close> is a stable sort by the key, and so is \<^const>\<open>sort_key\<close>.
  \<^verbatim>\<open>write_csv\<close> follows the sort and only reads \<^verbatim>\<open>_transactions\<close>; the
  file it writes is not part of this model.
\<close>

definition process_transactions ::
  "pylib \<Rightarrow> csv_files \<Rightarrow> string list \<Rightarrow> string list \<Rightarrow> date \<Rightarrow> grabber \<Rightarrow> error + grabber" where
  "process_transactions L fs banks files date s =
     (case parse_banks L fs banks files 0 (date_month date) s of
        Inl e \<Rightarrow> Inl e
      | Inr s1 \<Rightarrow> Inr (s1\<lparr>transactions := sort_key t_date (transactions s1)\<rparr>))"

section \<open>total_spent\<close>

text \<open>
  \<^verbatim>\<open>
  total = 0
  for transaction in self._transactions:
      total += transaction[3]
  return abs(total)
  \<close>
  Each \<^verbatim>\<open>total += transaction[3]\<close> is an addition of doubles, in the order of the
  ledger (the first one adds the amount to the int 0, which Python converts to a double).
  When an addition gives \<^verbatim>\<open>inf\<close> the total is not finite, and it stays so: an
  infinite total plus a finite amount is infinite. The result \<open>None\<close> is that value.
\<close>

definition float_add_total :: "pylib \<Rightarrow> real option \<Rightarrow> real \<Rightarrow> real option" where
  "float_add_total L subtotal x =
     (case subtotal of None \<Rightarrow> None | Some y \<Rightarrow> py_fadd L y x)"

definition total_spent :: "pylib \<Rightarrow> grabber \<Rightarrow> real option" where
  "total_spent L s =
     map_option abs
       (foldl (\<lambda>total transaction. float_add_total L total (t_amount transaction)) (Some 0)
          (transactions s))"

section \<open>get_categories and save_categories\<close>

text \<open>
  The two functions of the script keep the dict in the file \<^verbatim>\<open>categories.json\<close>
  with \<^verbatim>\<open>json.dump\<close> and \<^verbatim>\<open>json.load\<close>. The files that they open are given
  by their text.
\<close>

type_synonym text_files = "string \<Rightarrow> string option"

text \<open>
  \<^verbatim>\<open>json.dump\<close> with its default arguments writes a string between double quotes and
  replaces the double quote, the backslash and every character outside the range from the
  space to the tilde by an escape: a short escape for the backspace, the form feed, the line
  feed, the carriage return and the tab, and \<^verbatim>\<open>\u00XX\<close> with lower case hexadecimal
  digits for the other code points below 256.
\<close>

definition hex_digit :: "nat \<Rightarrow> char" where
  "hex_digit n = ''0123456789abcdef'' ! n"

definition json_escape :: "char \<Rightarrow> string" where
  "json_escape c =
     (if c = CHR 0x22 then [CHR 0x5C, CHR 0x22]
      else if c = CHR 0x5C then [CHR 0x5C, CHR 0x5C]
      else if c = CHR 0x08 then [CHR 0x5C, CHR ''b'']
      else if c = CHR 0x0C then [CHR 0x5C, CHR ''f'']
      else if c = CHR 0x0A then [CHR 0x5C, CHR ''n'']
      else if c = CHR 0x0D then [CHR 0x5C, CHR ''r'']
      else if c = CHR 0x09 then [CHR 0x5C, CHR ''t'']
      else if 0x20 \<le> (of_char c :: nat) \<and> (of_char c :: nat) \<le> 0x7E then [c]
      else [CHR 0x5C, CHR ''u'', CHR ''0'', CHR ''0'',
            hex_digit ((of_char c :: nat) div 16), hex_digit ((of_char c :: nat) mod 16)])"

definition encode_basestring_ascii :: "string \<Rightarrow> string" where
  "encode_basestring_ascii t = CHR 0x22 # concat (map json_escape t) @ [CHR 0x22]"

text \<open>
  A dict is written as its items in insertion order, key and value separated by a colon and
  a space, items separated by a comma and a space, between braces.
\<close>

fun encode_items :: "(string \<times> string) list \<Rightarrow> string" where
  "encode_items [] = []"
| "encode_items [(k, v)] = encode_basestring_ascii k @ '': '' @ encode_basestring_ascii v"
| "encode_items ((k, v) # item # items) =
     encode_basestring_ascii k @ '': '' @ encode_basestring_ascii v @ '', ''
     @ encode_items (item # items)"

definition json_dumps :: "(string \<times> string) list \<Rightarrow> string" where
  "json_dumps d = ''{'' @ encode_items d @ ''}''"

text \<open>
  \<^verbatim>\<open>json.load\<close>. White space is the space, the tab, the line feed and the carriage
  return. \<open>scanstring\<close> reads a string from the character after its opening quote and
  returns it with the text that follows the closing quote; a control character in the
  string, an unknown escape and a string without its closing quote are errors (\<open>None\<close>).
  An escape \<^verbatim>\<open>\uXXXX\<close> of a code point of 256 or more has no value in \<^typ>\<open>char\<close>
  and is \<open>None\<close> here.
\<close>

definition json_ws :: "char \<Rightarrow> bool" where
  "json_ws c \<longleftrightarrow> c = CHR '' '' \<or> c = CHR 0x09 \<or> c = CHR 0x0A \<or> c = CHR 0x0D"

definition skip_ws :: "string \<Rightarrow> string" where
  "skip_ws t = dropWhile json_ws t"

definition unhex :: "char \<Rightarrow> nat option" where
  "unhex c =
     (let n = (of_char c :: nat) in
      if 48 \<le> n \<and> n \<le> 57 then Some (n - 48)
      else if 97 \<le> n \<and> n \<le> 102 then Some (n - 87)
      else if 65 \<le> n \<and> n \<le> 70 then Some (n - 55)
      else None)"

definition backslash :: "char \<Rightarrow> char option" where
  "backslash e =
     (if e = CHR 0x22 then Some (CHR 0x22)
      else if e = CHR 0x5C then Some (CHR 0x5C)
      else if e = CHR ''/'' then Some (CHR ''/'')
      else if e = CHR ''b'' then Some (CHR 0x08)
      else if e = CHR ''f'' then Some (CHR 0x0C)
      else if e = CHR ''n'' then Some (CHR 0x0A)
      else if e = CHR ''r'' then Some (CHR 0x0D)
      else if e = CHR ''t'' then Some (CHR 0x09)
      else None)"

definition cons_result :: "char \<Rightarrow> (string \<times> string) option \<Rightarrow> (string \<times> string) option" where
  "cons_result c r = (case r of None \<Rightarrow> None | Some (t, rest) \<Rightarrow> Some (c # t, rest))"

fun scanstring :: "string \<Rightarrow> (string \<times> string) option" where
  "scanstring [] = None"
| "scanstring (c # cs) =
     (if c = CHR 0x22 then Some ([], cs)
      else if c = CHR 0x5C then
        (case cs of
           [] \<Rightarrow> None
         | e # es \<Rightarrow>
             if e = CHR ''u'' then
               (case es of
                  h1 # h2 # h3 # h4 # r \<Rightarrow>
                    (case (unhex h1, unhex h2, unhex h3, unhex h4) of
                       (Some n1, Some n2, Some n3, Some n4) \<Rightarrow>
                         if n1 = 0 \<and> n2 = 0 then cons_result (char_of (16 * n3 + n4)) (scanstring r)
                         else None
                     | _ \<Rightarrow> None)
                | _ \<Rightarrow> None)
             else (case backslash e of
                     None \<Rightarrow> None
                   | Some ch \<Rightarrow> cons_result ch (scanstring es)))
      else if (of_char c :: nat) < 0x20 then None
      else cons_result c (scanstring cs))"

text \<open>
  \<open>expect c\<close> passes over white space and then over the character \<open>c\<close>, which must be
  there. \<open>members\<close> reads the items of an object from the character after the opening
  quote of the first key up to the closing brace, as the loop of \<^verbatim>\<open>JSONObject\<close> does.
  The values of a \<^verbatim>\<open>dict[str, str]\<close> are strings: a text with a value of another kind
  has no value of that type and is \<open>None\<close> here.
\<close>

definition expect :: "char \<Rightarrow> string \<Rightarrow> string option" where
  "expect c t = (case skip_ws t of [] \<Rightarrow> None | d # ds \<Rightarrow> if d = c then Some ds else None)"

function members :: "string \<Rightarrow> ((string \<times> string) list \<times> string) option" where
  "members t =
     (case scanstring t of
        None \<Rightarrow> None
      | Some (key, r1) \<Rightarrow>
          (case expect CHR '':'' r1 of
             None \<Rightarrow> None
           | Some r2 \<Rightarrow>
               (case expect CHR 0x22 r2 of
                  None \<Rightarrow> None
                | Some r3 \<Rightarrow>
                    (case scanstring r3 of
                       None \<Rightarrow> None
                     | Some (val, r4) \<Rightarrow>
                         (case skip_ws r4 of
                            [] \<Rightarrow> None
                          | c # r5 \<Rightarrow>
                              if c = CHR ''}'' then Some ([(key, val)], r5)
                              else if c = CHR '','' then
                                (case expect CHR 0x22 r5 of
                                   None \<Rightarrow> None
                                 | Some r6 \<Rightarrow>
                                     (case members r6 of
                                        None \<Rightarrow> None
                                      | Some (items, r7) \<Rightarrow> Some ((key, val) # items, r7)))
                              else None)))))"
  by pat_completeness auto
termination
proof (relation "measure length")
  show "wf (measure length)" by simp
next
  fix t :: string and x2 key r1 r2 r3 x2a val r4 c r5 r6
  assume k: "scanstring t = Some x2" "(key, r1) = x2"
    and e1: "expect CHR '':'' r1 = Some r2"
    and e2: "expect CHR 0x22 r2 = Some r3"
    and v: "scanstring r3 = Some x2a" "(val, r4) = x2a"
    and w: "skip_ws r4 = c # r5"
    and e3: "expect CHR 0x22 r5 = Some r6"
  have sl: "length r < length u" if "scanstring u = Some (x, r)" for u x r
    using that
  proof (induction "length u" arbitrary: u x r rule: less_induct)
    case less
    show ?case
    proof (cases u)
      case Nil
      with less.prems show ?thesis by simp
    next
      case (Cons c cs)
      note u = Cons
      show ?thesis
      proof (cases "c = CHR 0x22")
        case True
        with less.prems u show ?thesis by simp
      next
        case nq: False
        show ?thesis
        proof (cases "c = CHR 0x5C")
          case bs: True
          show ?thesis
          proof (cases cs)
            case Nil
            with less.prems u nq bs show ?thesis by simp
          next
            case (Cons e es)
            show ?thesis
            proof (cases "e = CHR ''u''")
              case True
              with less.prems u nq bs Cons obtain h1 h2 h3 h4 r0 x0
                where es: "es = h1 # h2 # h3 # h4 # r0"
                  and sc: "scanstring r0 = Some (x0, r)"
                by (auto simp: cons_result_def
                    split: if_splits option.splits list.splits prod.splits)
              from u Cons es have "length r0 < length u" by simp
              from less.hyps[OF this sc] u Cons es show ?thesis by simp
            next
              case False
              with less.prems u nq bs Cons obtain x0 where sc: "scanstring es = Some (x0, r)"
                by (auto simp: cons_result_def split: if_splits option.splits prod.splits)
              from u Cons have "length es < length u" by simp
              from less.hyps[OF this sc] u Cons show ?thesis by simp
            qed
          qed
        next
          case nb: False
          from less.prems u nq nb obtain x0 where sc: "scanstring cs = Some (x0, r)"
            by (auto simp: cons_result_def split: if_splits option.splits prod.splits)
          from u have "length cs < length u" by simp
          from less.hyps[OF this sc] u show ?thesis by simp
        qed
      qed
    qed
  qed
  have ws: "length (skip_ws u) \<le> length u" for u
    by (simp add: skip_ws_def length_dropWhile_le)
  have ex: "length r < length u" if "expect d u = Some r" for d u r
  proof -
    from that obtain d' where "skip_ws u = d' # r"
      by (auto simp: expect_def split: list.splits if_splits)
    with ws[of u] show ?thesis by simp
  qed
  from k have "length r1 < length t" by (auto intro: sl)
  moreover from ex[OF e1] have "length r2 < length r1" .
  moreover from ex[OF e2] have "length r3 < length r2" .
  moreover from v have "length r4 < length r3" by (auto intro: sl)
  moreover from w ws[of r4] have "length r5 < length r4" by simp
  moreover from ex[OF e3] have "length r6 < length r5" .
  ultimately show "(r6, t) \<in> measure length" by simp
qed

declare members.simps [simp del]

text \<open>\<^verbatim>\<open>dict(pairs)\<close>: a key that comes again replaces the value and keeps its place.\<close>

definition dict_of_pairs :: "(string \<times> string) list \<Rightarrow> (string \<times> string) list" where
  "dict_of_pairs pairs = foldl (\<lambda>d (k, v). AList.update k v d) [] pairs"

text \<open>
  The whole text is one object: white space, the opening brace, either the closing brace or
  the items, and white space up to the end of the text.
\<close>

definition json_loads :: "string \<Rightarrow> (string \<times> string) list option" where
  "json_loads text =
     (case expect CHR ''{'' text of
        None \<Rightarrow> None
      | Some r1 \<Rightarrow>
          (case skip_ws r1 of
             [] \<Rightarrow> None
           | c # r2 \<Rightarrow>
               if c = CHR ''}'' then (if skip_ws r2 = [] then Some [] else None)
               else if c = CHR 0x22 then
                 (case members r2 of
                    None \<Rightarrow> None
                  | Some (items, r3) \<Rightarrow>
                      if skip_ws r3 = [] then Some (dict_of_pairs items) else None)
               else None))"

text \<open>
  \<^verbatim>\<open>
  def get_categories():
      try:
          with open("categories.json", "r") as file:
              return json.load(file)
      except FileNotFoundError:
          return {}

  def save_categories(categories):
      with open("categories.json", "w") as file:
          json.dump(categories, file)
  \<close>
  A text that \<^verbatim>\<open>json.load\<close> rejects raises a JSONDecodeError, which is a ValueError.
\<close>

definition get_categories :: "text_files \<Rightarrow> error + (string \<times> string) list" where
  "get_categories tfs =
     (case tfs ''categories.json'' of
        None \<Rightarrow> Inr []
      | Some text \<Rightarrow>
          (case json_loads text of
             None \<Rightarrow> Inl ValueError
           | Some d \<Rightarrow> Inr d))"

definition save_categories :: "(string \<times> string) list \<Rightarrow> text_files \<Rightarrow> text_files" where
  "save_categories cats tfs = tfs(''categories.json'' \<mapsto> json_dumps cats)"

section \<open>The script\<close>

text \<open>
  The block under \<^verbatim>\<open>if __name__ == "__main__"\<close>, from the three arguments of the
  command line to the saved categories:
  \<^verbatim>\<open>
  banks = args.bank.split(",")
  files = args.file.split(",")
  date = datetime.strptime(args.date, "%m/%y")
  categories = get_categories()
  expense_grabber = ExpenseGrabber(monthly_costs=[], categories=categories, interactive=True)
  expense_grabber.process_transactions(banks, files, date)
  ...
  save_categories(expense_grabber.get_categories())
  \<close>
  The method \<^verbatim>\<open>get_categories\<close> of the class returns \<^verbatim>\<open>self.categories\<close>. The
  totals that the script prints in between do not change the state.
\<close>

definition main ::
  "pylib \<Rightarrow> csv_files \<Rightarrow> text_files \<Rightarrow> string \<Rightarrow> string \<Rightarrow> string \<Rightarrow> string list
     \<Rightarrow> error + (grabber \<times> text_files)" where
  "main L fs tfs file_arg date_arg bank_arg inp =
     (let banks = split_chr CHR '','' bank_arg;
          files = split_chr CHR '','' file_arg
      in case py_strptime L date_arg ''%m/%y'' of
           None \<Rightarrow> Inl ValueError
         | Some date \<Rightarrow>
             (case get_categories tfs of
                Inl e \<Rightarrow> Inl e
              | Inr cats \<Rightarrow>
                  (let expense_grabber = ExpenseGrabber [] cats True inp
                   in case process_transactions L fs banks files date expense_grabber of
                        Inl e \<Rightarrow> Inl e
                      | Inr g \<Rightarrow> Inr (g, save_categories (categories g) tfs))))"

section \<open>The properties that the claims name\<close>

text \<open>
  The inclusion predicate of Bank A on a transaction of the ledger: its month is the target
  month, its amount is negative and no monthly cost occurs in its description.
\<close>

definition rbc_included :: "string list \<Rightarrow> int \<Rightarrow> transaction \<Rightarrow> bool" where
  "rbc_included monthly_costs month t \<longleftrightarrow>
     date_month (t_date t) = month \<and> t_amount t < 0 \<and>
     list_all (\<lambda>k. \<not> str_in k (t_description t)) monthly_costs"

text \<open>
  The inclusion predicate of Bank B relates a transaction to its source row, since the
  transaction does not hold field 1: the row has DEBIT in field 1 and the transaction has
  the date, the description and the amount of the row, in the target month.
\<close>

definition tangerine_included :: "pylib \<Rightarrow> int \<Rightarrow> row \<Rightarrow> transaction \<Rightarrow> bool" where
  "tangerine_included L month row t \<longleftrightarrow>
     4 < length row \<and> row ! 1 = ''DEBIT'' \<and>
     py_strptime L (row ! 0) ''%m/%d/%Y'' = Some (t_date t) \<and>
     date_month (t_date t) = month \<and>
     row ! 2 = t_description t \<and>
     py_float L (row ! 4) = Some (t_amount t)"

text \<open>
  The invariant of the ledger: every transaction passes the filter of Bank A, or has a
  source row among the Bank B rows read so far that passes the filter of Bank B.
\<close>

definition ledger_ok ::
  "pylib \<Rightarrow> string list \<Rightarrow> int \<Rightarrow> row list \<Rightarrow> transaction list \<Rightarrow> bool" where
  "ledger_ok L monthly_costs month rows_b ledger \<longleftrightarrow>
     list_all (\<lambda>t. rbc_included monthly_costs month t \<or>
                   list_ex (\<lambda>row. tangerine_included L month row t) rows_b) ledger"

text \<open>The rows of the files that a run names, in the order of the names.\<close>

definition files_rows :: "csv_files \<Rightarrow> string list \<Rightarrow> row list" where
  "files_rows fs files = concat (map (\<lambda>f. case fs f of None \<Rightarrow> [] | Some rows \<Rightarrow> rows) files)"

text \<open>
  What the specification says a parser selects from a row: the date, the description and the
  amount of a row that passes the filter of its bank, and nothing for any other row.
\<close>

definition rbc_selected ::
  "pylib \<Rightarrow> string list \<Rightarrow> int \<Rightarrow> row \<Rightarrow> (date \<times> string \<times> real) option" where
  "rbc_selected L monthly_costs month row =
     (case (py_strptime L (row ! 2) ''%m/%d/%Y'', py_float L (row ! 6)) of
        (Some d, Some a) \<Rightarrow>
          if row ! 6 \<noteq> ''CAD$'' \<and> date_month d = month \<and> a < 0 \<and>
             list_all (\<lambda>k. \<not> str_in k (row ! 4)) monthly_costs
          then Some (d, row ! 4, a) else None
      | _ \<Rightarrow> None)"

definition tangerine_selected ::
  "pylib \<Rightarrow> int \<Rightarrow> row \<Rightarrow> (date \<times> string \<times> real) option" where
  "tangerine_selected L month row =
     (case (py_strptime L (row ! 0) ''%m/%d/%Y'', py_float L (row ! 4)) of
        (Some d, Some a) \<Rightarrow>
          if row ! 0 \<noteq> ''Transaction date'' \<and> date_month d = month \<and> row ! 1 = ''DEBIT''
          then Some (d, row ! 2, a) else None
      | _ \<Rightarrow> None)"

definition t_core :: "transaction \<Rightarrow> date \<times> string \<times> real" where
  "t_core t = (t_date t, t_description t, t_amount t)"

text \<open>
  The additions of a total are exact when each of them returns the sum of its two numbers
  with no rounding.
\<close>

fun adds_exact :: "pylib \<Rightarrow> real \<Rightarrow> real list \<Rightarrow> bool" where
  "adds_exact L subtotal [] = True"
| "adds_exact L subtotal (x # xs) =
     (py_fadd L subtotal x = Some (subtotal + x) \<and> adds_exact L (subtotal + x) xs)"

text \<open>
  What a run selects from a Bank A row when the description is not looked at: the date, the
  description and the amount of a row that is not the marker row, is in the target month and
  has a negative amount. \<open>cli_selected\<close> is the ledger that the loop over the banks builds
  from these rows and from the selected rows of Bank B, in the order of insertion.
\<close>

definition rbc_selected_any ::
  "pylib \<Rightarrow> int \<Rightarrow> row \<Rightarrow> (date \<times> string \<times> real) option" where
  "rbc_selected_any L month row =
     (case (py_strptime L (row ! 2) ''%m/%d/%Y'', py_float L (row ! 6)) of
        (Some d, Some a) \<Rightarrow>
          if row ! 6 \<noteq> ''CAD$'' \<and> date_month d = month \<and> a < 0
          then Some (d, row ! 4, a) else None
      | _ \<Rightarrow> None)"

definition rows_of :: "csv_files \<Rightarrow> string \<Rightarrow> row list" where
  "rows_of fs f = (case fs f of None \<Rightarrow> [] | Some rows \<Rightarrow> rows)"

fun cli_selected ::
  "pylib \<Rightarrow> csv_files \<Rightarrow> string list \<Rightarrow> string list \<Rightarrow> nat \<Rightarrow> int
     \<Rightarrow> (date \<times> string \<times> real) list \<Rightarrow> (date \<times> string \<times> real) list" where
  "cli_selected L fs [] files i month acc = acc"
| "cli_selected L fs (bank # banks) files i month acc =
     cli_selected L fs banks files (Suc i) month
       (if bank = ''rbc'' then
          acc @ List.map_filter (rbc_selected_any L month) (rows_of fs (files ! i))
        else if bank = ''tangerine'' then
          rev (List.map_filter (tangerine_selected L month) (rows_of fs (files ! i))) @ acc
        else acc)"

text \<open>
  Valid rows: a row of Bank A has seven fields or more and is the marker row or has a date
  and an amount that parse; a row of Bank B has five fields or more and is the header row or
  has a date and an amount that parse. A run has valid files when every bank that it names is
  paired with a file that exists and has valid rows. \<open>rows_count\<close> is the number of rows
  that the run reads, which bounds the number of its prompts.
\<close>

definition rbc_row_valid :: "pylib \<Rightarrow> row \<Rightarrow> bool" where
  "rbc_row_valid L row \<longleftrightarrow>
     6 < length row \<and>
     (row ! 6 = ''CAD$'' \<or>
      (py_strptime L (row ! 2) ''%m/%d/%Y'' \<noteq> None \<and> py_float L (row ! 6) \<noteq> None))"

definition tangerine_row_valid :: "pylib \<Rightarrow> row \<Rightarrow> bool" where
  "tangerine_row_valid L row \<longleftrightarrow>
     4 < length row \<and>
     (row ! 0 = ''Transaction date'' \<or>
      (py_strptime L (row ! 0) ''%m/%d/%Y'' \<noteq> None \<and> py_float L (row ! 4) \<noteq> None))"

fun files_valid :: "pylib \<Rightarrow> csv_files \<Rightarrow> string list \<Rightarrow> string list \<Rightarrow> nat \<Rightarrow> bool" where
  "files_valid L fs [] files i = True"
| "files_valid L fs (bank # banks) files i =
     ((if bank = ''rbc'' then
         i < length files \<and>
         (case fs (files ! i) of None \<Rightarrow> False | Some rows \<Rightarrow> list_all (rbc_row_valid L) rows)
       else if bank = ''tangerine'' then
         i < length files \<and>
         (case fs (files ! i) of
            None \<Rightarrow> False
          | Some rows \<Rightarrow> list_all (tangerine_row_valid L) rows)
       else True)
      \<and> files_valid L fs banks files (Suc i))"

fun rows_count :: "csv_files \<Rightarrow> string list \<Rightarrow> string list \<Rightarrow> nat \<Rightarrow> nat" where
  "rows_count fs [] files i = 0"
| "rows_count fs (bank # banks) files i =
     (if bank = ''rbc'' \<or> bank = ''tangerine'' then
        (case fs (files ! i) of None \<Rightarrow> 0 | Some rows \<Rightarrow> length rows)
      else 0)
     + rows_count fs banks files (Suc i)"

text \<open>
  The filter of Bank A without its third condition: the row is not the marker row, its date
  is in the target month and its amount is negative.
\<close>

definition rbc_month_and_sign :: "pylib \<Rightarrow> int \<Rightarrow> row \<Rightarrow> bool" where
  "rbc_month_and_sign L month row =
     (case (py_strptime L (row ! 2) ''%m/%d/%Y'', py_float L (row ! 6)) of
        (Some d, Some a) \<Rightarrow> row ! 6 \<noteq> ''CAD$'' \<and> date_month d = month \<and> a < 0
      | _ \<Rightarrow> False)"

section \<open>A concrete library for the examples\<close>

text \<open>
  The closed examples below need values of the library functions at concrete strings.
  \<open>py0\<close> supplies them: each of its functions returns what Python returns on the
  strings it accepts, and is used only at such strings and at strings that Python rejects too.
\<close>

definition is_digit :: "char \<Rightarrow> bool" where
  "is_digit c = (48 \<le> (of_char c :: nat) \<and> (of_char c :: nat) \<le> 57)"

definition digit_val :: "char \<Rightarrow> nat" where
  "digit_val c = of_char c - 48"

definition digits_nat :: "string \<Rightarrow> nat" where
  "digits_nat ds = foldl (\<lambda>a c. 10 * a + digit_val c) 0 ds"

text \<open>
  The directives of the format, as the regular expressions of \<^verbatim>\<open>_strptime\<close>:
  \<^verbatim>\<open>%m\<close> is \<^verbatim>\<open>1[0-2]|0[1-9]|[1-9]\<close>,
  \<^verbatim>\<open>%d\<close> is \<^verbatim>\<open>3[01]|[12]\d|0[1-9]|[1-9]| [1-9]\<close> and
  \<^verbatim>\<open>%Y\<close> is \<^verbatim>\<open>\d\d\d\d\<close>. None of them matches a slash, so the string
  matches the format when its three pieces between the slashes match the directives.
\<close>

definition match_m :: "string \<Rightarrow> nat option" where
  "match_m t =
     (case t of
        [a] \<Rightarrow> if is_digit a \<and> a \<noteq> CHR ''0'' then Some (digit_val a) else None
      | [a, b] \<Rightarrow>
          if a = CHR ''1'' \<and> b \<in> set ''012'' then Some (10 + digit_val b)
          else if a = CHR ''0'' \<and> is_digit b \<and> b \<noteq> CHR ''0'' then Some (digit_val b)
          else None
      | _ \<Rightarrow> None)"

definition match_d :: "string \<Rightarrow> nat option" where
  "match_d t =
     (case t of
        [a] \<Rightarrow> if is_digit a \<and> a \<noteq> CHR ''0'' then Some (digit_val a) else None
      | [a, b] \<Rightarrow>
          if a = CHR ''3'' \<and> b \<in> set ''01'' then Some (30 + digit_val b)
          else if a \<in> set ''12'' \<and> is_digit b then Some (10 * digit_val a + digit_val b)
          else if a \<in> set ''0 '' \<and> is_digit b \<and> b \<noteq> CHR ''0'' then Some (digit_val b)
          else None
      | _ \<Rightarrow> None)"

definition match_Y :: "string \<Rightarrow> nat option" where
  "match_Y t = (if length t = 4 \<and> list_all is_digit t then Some (digits_nat t) else None)"

definition days_in_month :: "nat \<Rightarrow> nat \<Rightarrow> nat" where
  "days_in_month y m =
     (if m = 2 then (if y mod 4 = 0 \<and> (y mod 100 \<noteq> 0 \<or> y mod 400 = 0) then 29 else 28)
      else if m \<in> set [4, 6, 9, 11] then 30 else 31)"

text \<open>
  \<^verbatim>\<open>datetime.strptime(t, "%m/%d/%Y")\<close>: the match, then the construction of the
  datetime, which rejects the year 0 and a day that the month does not have.
\<close>

definition strptime_mdY :: "string \<Rightarrow> date option" where
  "strptime_mdY t =
     (case split_chr CHR ''/'' t of
        [tm, td, ty] \<Rightarrow>
          (case (match_m tm, match_d td, match_Y ty) of
             (Some m, Some d, Some y) \<Rightarrow>
               if 1 \<le> y \<and> d \<le> days_in_month y m then Some (int y, int m, int d) else None
           | _ \<Rightarrow> None)
      | _ \<Rightarrow> None)"

text \<open>
  \<^verbatim>\<open>float(t)\<close> on a decimal literal: white space around it, a sign, digits and at
  most one point with a digit on one side of it. The strings with an exponent, an
  underscore, \<^verbatim>\<open>inf\<close> or \<^verbatim>\<open>nan\<close>, which \<^verbatim>\<open>float\<close> accepts too, are not
  used in the examples, and the literals of the examples are doubles as they are written.
\<close>

definition float_decimal :: "string \<Rightarrow> real option" where
  "float_decimal t =
     (let u = strip t;
          neg = (u \<noteq> [] \<and> hd u = CHR ''-'');
          body = (if u \<noteq> [] \<and> hd u \<in> set ''+-'' then tl u else u);
          sg = (if neg then - 1 else 1 :: real)
      in case split_chr CHR ''.'' body of
           [ip] \<Rightarrow>
             if ip \<noteq> [] \<and> list_all is_digit ip then Some (sg * real (digits_nat ip)) else None
         | [ip, fp] \<Rightarrow>
             if (ip \<noteq> [] \<or> fp \<noteq> []) \<and> list_all is_digit ip \<and> list_all is_digit fp
             then Some (sg * (real (digits_nat ip) + real (digits_nat fp) / 10 ^ length fp))
             else None
         | _ \<Rightarrow> None)"

text \<open>
  \<^verbatim>\<open>int(t)\<close> in base ten: white space around it, a sign, and digits that single
  underscores may separate.
\<close>

fun int_digits :: "nat \<Rightarrow> string \<Rightarrow> nat option" where
  "int_digits a [] = None"
| "int_digits a [c] = (if is_digit c then Some (10 * a + digit_val c) else None)"
| "int_digits a (c # d # cs) =
     (if is_digit c then
        (if d = CHR ''_'' then int_digits (10 * a + digit_val c) cs
         else int_digits (10 * a + digit_val c) (d # cs))
      else None)"

definition int_decimal :: "string \<Rightarrow> int option" where
  "int_decimal t =
     (let u = strip t in
      if u \<noteq> [] \<and> hd u = CHR ''-'' then map_option (\<lambda>n. - int n) (int_digits 0 (tl u))
      else if u \<noteq> [] \<and> hd u = CHR ''+'' then map_option int (int_digits 0 (tl u))
      else map_option int (int_digits 0 u))"

text \<open>
  \<^verbatim>\<open>datetime.strptime(t, "%m/%y")\<close>, the format of the command line:
  \<^verbatim>\<open>%y\<close> is \<^verbatim>\<open>\d\d\<close>, a year from 69 to 99 is in the 1900s and a year
  from 0 to 68 in the 2000s, and the day is the first of the month.
\<close>

definition strptime_my :: "string \<Rightarrow> date option" where
  "strptime_my t =
     (case split_chr CHR ''/'' t of
        [tm, ty] \<Rightarrow>
          (case match_m tm of
             Some m \<Rightarrow>
               if length ty = 2 \<and> list_all is_digit ty
               then Some (int (if digits_nat ty \<le> 68 then 2000 + digits_nat ty
                               else 1900 + digits_nat ty), int m, 1)
               else None
           | None \<Rightarrow> None)
      | _ \<Rightarrow> None)"

definition strptime0 :: "string \<Rightarrow> string \<Rightarrow> date option" where
  "strptime0 t format =
     (if format = ''%m/%d/%Y'' then strptime_mdY t
      else if format = ''%m/%y'' then strptime_my t
      else None)"

text \<open>
  The addition of two finite doubles (IEEE 754 binary64): the sum of the two numbers is
  rounded to 53 significant bits, to the nearest such number and to the one with an even
  last bit when two are equally near; the exponent of the last bit is at least \<open>-1074\<close>,
  and a rounded sum above the largest double is not finite. \<open>ilog2 x\<close> is the exponent
  of the leading bit of \<open>x\<close>.
\<close>

definition ilog2 :: "real \<Rightarrow> int" where
  "ilog2 x =
     (if 1 \<le> \<bar>x\<bar> then bitlen \<lfloor>\<bar>x\<bar>\<rfloor> - 1
      else - bitlen (\<lceil>1 / \<bar>x\<bar>\<rceil> - 1))"

definition round_half_even :: "real \<Rightarrow> int" where
  "round_half_even m =
     (let f = \<lfloor>m\<rfloor>; d = m - of_int f
      in if d < 1 / 2 then f
         else if 1 / 2 < d then f + 1
         else if even f then f else f + 1)"

definition round_double :: "real \<Rightarrow> real" where
  "round_double x =
     (if x = 0 then 0
      else
        (let e = max (ilog2 x) (- 1022);
             q = (if 52 \<le> e then 2 ^ nat (e - 52) else 1 / 2 ^ nat (52 - e))
         in sgn x * of_int (round_half_even (\<bar>x\<bar> / q)) * q))"

definition double_add :: "real \<Rightarrow> real \<Rightarrow> real option" where
  "double_add x y =
     (let r = round_double (x + y)
      in if \<bar>r\<bar> \<le> (2 ^ 53 - 1) * 2 ^ 971 then Some r else None)"

definition py0 :: pylib where
  "py0 = \<lparr>py_strptime = strptime0, py_float = float_decimal, py_int = int_decimal,
          py_list_set = remdups, py_fadd = double_add\<rparr>"

section \<open>An example run\<close>

text \<open>
  A Bank A file and a Bank B file for the examples. The Bank A file starts with its marker
  row; its rows of March are not in the order of their dates, and one row is of April.
  The Bank B file starts with its header row and has one row that is not a debit.
\<close>

definition example_rbc_rows :: "row list" where
  "example_rbc_rows =
     [[''Account Type'', ''Account Number'', ''Transaction Date'', ''Cheque Number'',
       ''Description 1'', ''Description 2'', ''CAD$'', ''USD$''],
      [''Visa'', ''4510'', ''3/9/2024'', '''', ''Coffee Shop'', '''', ''-4.50'', ''''],
      [''Visa'', ''4510'', ''3/5/2024'', '''', ''Grocer'', '''', ''-30.25'', ''''],
      [''Visa'', ''4510'', ''4/1/2024'', '''', ''Cinema'', '''', ''-12.00'', ''''],
      [''Visa'', ''4510'', ''3/9/2024'', '''', ''Baker'', '''', ''-2.00'', '''']]"

definition example_tangerine_rows :: "row list" where
  "example_tangerine_rows =
     [[''Transaction date'', ''Transaction'', ''Name'', ''Memo'', ''Amount''],
      [''3/9/2024'', ''DEBIT'', ''Anna'', ''Interac e-Transfer: '', ''-20.00''],
      [''3/7/2024'', ''CREDIT'', ''Payroll'', ''Deposit'', ''100.00''],
      [''3/5/2024'', ''DEBIT'', ''Bookshop'', ''Rewards: Books'', ''-15.00'']]"

definition example_files :: csv_files where
  "example_files f =
     (if f = ''rbc.csv'' then Some example_rbc_rows
      else if f = ''tangerine.csv'' then Some example_tangerine_rows
      else None)"

text \<open>The ledger of the example before the sort, and the state after the run.\<close>

definition example_ledger :: "transaction list" where
  "example_ledger =
     [((2024, 3, 5), ''Bookshop'', ''Unknown'', - 15),
      ((2024, 3, 9), ''Anna'', ''Unknown'', - 20),
      ((2024, 3, 9), ''Coffee Shop'', ''Unknown'', - 4.5),
      ((2024, 3, 5), ''Grocer'', ''Unknown'', - 30.25),
      ((2024, 3, 9), ''Baker'', ''Unknown'', - 2)]"

definition example_categories :: "(string \<times> string) list" where
  "example_categories =
     [(''Coffee Shop'', ''Unknown''), (''Grocer'', ''Unknown''), (''Cinema'', ''Unknown''),
      (''Baker'', ''Unknown''), (''Anna'', ''Unknown''), (''Payroll'', ''Unknown''),
      (''Bookshop'', ''Unknown'')]"

definition example_result :: grabber where
  "example_result =
     \<lparr>transactions =
        [((2024, 3, 5), ''Bookshop'', ''Unknown'', - 15),
         ((2024, 3, 5), ''Grocer'', ''Unknown'', - 30.25),
         ((2024, 3, 9), ''Anna'', ''Unknown'', - 20),
         ((2024, 3, 9), ''Coffee Shop'', ''Unknown'', - 4.5),
         ((2024, 3, 9), ''Baker'', ''Unknown'', - 2)],
      MONTHLY_COSTS = [''RENT''], categories = example_categories,
      interactive = False, console = []\<rparr>"

text \<open>A Bank A file with a payment of rent, for a run from the command line.\<close>

definition example_rent_files :: csv_files where
  "example_rent_files f =
     (if f = ''rbc.csv'' then
        Some [[''Account Type'', ''Account Number'', ''Transaction Date'', ''Cheque Number'',
               ''Description 1'', ''Description 2'', ''CAD$'', ''USD$''],
              [''Chequing'', ''1001'', ''3/1/2024'', '''', ''RENT PAYMENT'', '''', ''-1200.00'', '''']]
      else None)"

section \<open>Sums\<close>

lemma foldl_amounts:
  "foldl (\<lambda>total t. f total (g t)) a ts = foldl f a (map g ts)"
  by (induction ts arbitrary: a) simp_all

lemma foldl_adds_exact:
  "adds_exact L a xs \<Longrightarrow>
   foldl (float_add_total L) (Some a) xs = Some (a + sum_list xs)"
  by (induction xs arbitrary: a) (simp_all add: float_add_total_def add.assoc)

section \<open>Dicts and the category of a row\<close>

lemma str_in_sublist: "str_in s t \<longleftrightarrow> sublist s t"
  by (induction t) (auto simp: sublist_Cons_right)

lemma map_of_update_same: "map_of (AList.update k v d) k = Some v"
  by (simp add: update_conv')

lemma dict_get_update_same: "dict_get (AList.update k v d) k dflt = v"
  by (simp add: dict_get_def map_of_update_same)

lemma dict_get_not_default:
  "dict_get d k dflt \<noteq> dflt \<Longrightarrow> map_of d k = Some (dict_get d k dflt)"
  by (auto simp: dict_get_def split: option.splits)

lemma add_category_Inr:
  assumes "add_category L t s = Inr s'"
  shows "transactions s' = transactions s" and "MONTHLY_COSTS s' = MONTHLY_COSTS s"
    and "interactive s' = interactive s"
    and "\<exists>v. categories s' = AList.update t v (categories s)"
    and "console s \<noteq> [] \<and> console s' = tl (console s)"
  using assms by (auto simp: add_category_def Let_def split: list.splits)

lemma rbc_category_Inr:
  assumes "rbc_category L d s = Inr (c, s')"
  shows "transactions s' = transactions s" and "MONTHLY_COSTS s' = MONTHLY_COSTS s"
    and "interactive s' = interactive s"
    and "map_of (categories s') d = Some c"
  using assms
  by (auto simp: rbc_category_def Let_def map_of_update_same dict_get_update_same
      split: if_splits sum.splits dest: add_category_Inr)

lemma tangerine_category_Inr:
  assumes "tangerine_category L row s = Inr (c, s')"
  shows "transactions s' = transactions s" and "MONTHLY_COSTS s' = MONTHLY_COSTS s"
    and "interactive s' = interactive s"
    and "map_of (categories s') (row ! 2) = Some c"
  using assms
  by (auto simp: tangerine_category_def Let_def map_of_update_same dict_get_update_same
      dict_get_not_default
      split: if_splits sum.splits dest: add_category_Inr)

lemma rbc_category_batch:
  "\<not> interactive s \<Longrightarrow>
   rbc_category L d s =
     Inr (dict_get (categories s) d ''Unknown'',
          s\<lparr>categories := AList.update d (dict_get (categories s) d ''Unknown'') (categories s)\<rparr>)"
  by (simp add: rbc_category_def Let_def)

text \<open>What one row of Bank A does to the ledger, when the body of the loop returns.\<close>

lemma rbc_row_Inr:
  assumes "rbc_row L month row s = Inr s'" and "row ! 6 \<noteq> ''CAD$''"
  obtains d c s1 where "py_strptime L (row ! 2) ''%m/%d/%Y'' = Some d"
    and "rbc_category L (row ! 4) s = Inr (c, s1)"
    and "6 < length row"
    and "s' = (if date_month d = month \<and> (\<exists>a. py_float L (row ! 6) = Some a \<and> a < 0)
                  \<and> list_all (\<lambda>k. \<not> str_in k (row ! 4)) (MONTHLY_COSTS s)
               then s1\<lparr>transactions := transactions s @ [(d, row ! 4, c, the (py_float L (row ! 6)))]\<rparr>
               else s1)"
proof -
  from assms have len: "6 < length row"
    by (auto simp: rbc_row_def split: if_splits)
  from assms len obtain d where d: "py_strptime L (row ! 2) ''%m/%d/%Y'' = Some d"
    by (auto simp: rbc_row_def split: if_splits option.splits)
  from assms len d obtain c s1 where c: "rbc_category L (row ! 4) s = Inr (c, s1)"
    by (auto simp: rbc_row_def split: if_splits sum.splits)
  note fr = rbc_category_Inr[OF c]
  from assms len d c fr
  have "s' = (if date_month d = month \<and> (\<exists>a. py_float L (row ! 6) = Some a \<and> a < 0)
                  \<and> list_all (\<lambda>k. \<not> str_in k (row ! 4)) (MONTHLY_COSTS s)
               then s1\<lparr>transactions := transactions s @ [(d, row ! 4, c, the (py_float L (row ! 6)))]\<rparr>
               else s1)"
    by (auto simp: rbc_row_def split: if_splits option.splits)
  with that len d c show thesis by blast
qed

lemma tangerine_row_Inr:
  assumes "tangerine_row L month row s = Inr s'" and "row ! 0 \<noteq> ''Transaction date''"
  obtains d c s1 where "py_strptime L (row ! 0) ''%m/%d/%Y'' = Some d"
    and "tangerine_category L row s = Inr (c, s1)"
    and "2 < length row"
    and "date_month d = month \<and> row ! 1 = ''DEBIT'' \<Longrightarrow>
           4 < length row \<and> (\<exists>a. py_float L (row ! 4) = Some a \<and>
             s' = s1\<lparr>transactions := (d, row ! 2, c, a) # transactions s\<rparr>)"
    and "\<not> (date_month d = month \<and> row ! 1 = ''DEBIT'') \<Longrightarrow> s' = s1"
proof -
  from assms have len: "row \<noteq> []"
    by (auto simp: tangerine_row_def split: if_splits)
  from assms len obtain d where d: "py_strptime L (row ! 0) ''%m/%d/%Y'' = Some d"
    by (auto simp: tangerine_row_def split: if_splits option.splits)
  from assms len d have len2: "2 < length row"
    by (auto simp: tangerine_row_def split: if_splits)
  from assms len d len2 obtain c s1 where c: "tangerine_category L row s = Inr (c, s1)"
    by (auto simp: tangerine_row_def split: if_splits sum.splits)
  note fr = tangerine_category_Inr[OF c]
  from assms len d len2 c fr
  have 1: "date_month d = month \<and> row ! 1 = ''DEBIT'' \<Longrightarrow>
           4 < length row \<and> (\<exists>a. py_float L (row ! 4) = Some a \<and>
             s' = s1\<lparr>transactions := (d, row ! 2, c, a) # transactions s\<rparr>)"
    by (auto simp: tangerine_row_def split: if_splits option.splits)
  from assms len d len2 c
  have 2: "\<not> (date_month d = month \<and> row ! 1 = ''DEBIT'') \<Longrightarrow> s' = s1"
    by (auto simp: tangerine_row_def split: if_splits option.splits)
  from that[OF d c len2 1 2] show thesis by blast
qed

lemma update_absent: "map_of d k = None \<Longrightarrow> AList.update k v d = d @ [(k, v)]"
  by (induction d) (auto split: if_splits)

lemma update_present: "map_of d k = Some v \<Longrightarrow> AList.update k v d = d"
  by (induction d) (auto split: if_splits)

section \<open>The loops over the rows\<close>

lemma parse_rbc_rows_append:
  "parse_rbc_rows L month (pre @ post) s =
     (case parse_rbc_rows L month pre s of
        Inl e \<Rightarrow> Inl e
      | Inr s1 \<Rightarrow> parse_rbc_rows L month post s1)"
  by (induction pre arbitrary: s) (auto split: sum.splits)

lemma parse_tangerine_rows_append:
  "parse_tangerine_rows L month (pre @ post) s =
     (case parse_tangerine_rows L month pre s of
        Inl e \<Rightarrow> Inl e
      | Inr s1 \<Rightarrow> parse_tangerine_rows L month post s1)"
  by (induction pre arbitrary: s) (auto split: sum.splits)

lemma rbc_row_bad_date:
  "6 < length row \<Longrightarrow> row ! 6 \<noteq> ''CAD$'' \<Longrightarrow> py_strptime L (row ! 2) ''%m/%d/%Y'' = None
   \<Longrightarrow> rbc_row L month row s = Inl ValueError"
  by (simp add: rbc_row_def)

lemma rbc_row_bad_amount:
  "6 < length row \<Longrightarrow> row ! 6 \<noteq> ''CAD$'' \<Longrightarrow> py_strptime L (row ! 2) ''%m/%d/%Y'' = Some d
   \<Longrightarrow> date_month d = month \<Longrightarrow> py_float L (row ! 6) = None
   \<Longrightarrow> isl (rbc_row L month row s)"
  by (simp add: rbc_row_def split: sum.splits prod.splits)

lemma tangerine_row_bad_date:
  "row \<noteq> [] \<Longrightarrow> row ! 0 \<noteq> ''Transaction date'' \<Longrightarrow> py_strptime L (row ! 0) ''%m/%d/%Y'' = None
   \<Longrightarrow> tangerine_row L month row s = Inl ValueError"
  by (simp add: tangerine_row_def)

lemma tangerine_row_bad_amount:
  "row \<noteq> [] \<Longrightarrow> row ! 0 \<noteq> ''Transaction date'' \<Longrightarrow> py_strptime L (row ! 0) ''%m/%d/%Y'' = Some d
   \<Longrightarrow> date_month d = month \<Longrightarrow> row ! 1 = ''DEBIT'' \<Longrightarrow> py_float L (row ! 4) = None
   \<Longrightarrow> isl (tangerine_row L month row s)"
  by (simp add: tangerine_row_def split: sum.splits prod.splits)

section \<open>Evaluating the concrete library\<close>

lemmas py0_simps = py0_def strptime0_def strptime_mdY_def strptime_my_def match_m_def match_d_def
  match_Y_def days_in_month_def is_digit_def digit_val_def digits_nat_def float_decimal_def
  int_decimal_def strip_def py_isspace_def

section \<open>What the parsers add to the ledger\<close>

lemma rbc_row_frame:
  assumes "rbc_row L month row s = Inr s'"
  shows "MONTHLY_COSTS s' = MONTHLY_COSTS s \<and> interactive s' = interactive s"
proof (cases "row ! 6 = ''CAD$''")
  case True
  with assms have "s' = s"
    by (auto simp: rbc_row_def split: if_splits)
  then show ?thesis by simp
next
  case False
  from assms False obtain d c s1 where c: "rbc_category L (row ! 4) s = Inr (c, s1)"
    and s': "s' = (if date_month d = month \<and> (\<exists>a. py_float L (row ! 6) = Some a \<and> a < 0)
                  \<and> list_all (\<lambda>k. \<not> str_in k (row ! 4)) (MONTHLY_COSTS s)
               then s1\<lparr>transactions := transactions s @ [(d, row ! 4, c, the (py_float L (row ! 6)))]\<rparr>
               else s1)"
    by (blast elim: rbc_row_Inr)
  from s' rbc_category_Inr(2,3)[OF c] show ?thesis
    by (simp split: if_splits)
qed

lemma tangerine_row_frame:
  assumes "tangerine_row L month row s = Inr s'"
  shows "MONTHLY_COSTS s' = MONTHLY_COSTS s \<and> interactive s' = interactive s"
proof (cases "row ! 0 = ''Transaction date''")
  case True
  with assms have "s' = s"
    by (auto simp: tangerine_row_def split: if_splits)
  then show ?thesis by simp
next
  case False
  from assms False obtain d c s1 where c: "tangerine_category L row s = Inr (c, s1)"
    and 1: "date_month d = month \<and> row ! 1 = ''DEBIT'' \<Longrightarrow>
           4 < length row \<and> (\<exists>a. py_float L (row ! 4) = Some a \<and>
             s' = s1\<lparr>transactions := (d, row ! 2, c, a) # transactions s\<rparr>)"
    and 2: "\<not> (date_month d = month \<and> row ! 1 = ''DEBIT'') \<Longrightarrow> s' = s1"
    by (blast elim: tangerine_row_Inr)
  show ?thesis
  proof (cases "date_month d = month \<and> row ! 1 = ''DEBIT''")
    case True
    from 1[OF True] obtain a where "s' = s1\<lparr>transactions := (d, row ! 2, c, a) # transactions s\<rparr>"
      by blast
    with tangerine_category_Inr(2,3)[OF c] show ?thesis by simp
  next
    case F: False
    from 2[OF F] tangerine_category_Inr(2,3)[OF c] show ?thesis by simp
  qed
qed

lemma rbc_row_step:
  assumes "rbc_row L month row s = Inr s'"
  shows "MONTHLY_COSTS s' = MONTHLY_COSTS s"
    and "interactive s' = interactive s"
    and "\<exists>new. transactions s' = transactions s @ new \<and>
           list_all (rbc_included (MONTHLY_COSTS s) month) new \<and>
           length new \<le> 1 \<and>
           map t_core new = List.map_filter (rbc_selected L (MONTHLY_COSTS s) month) [row]"
proof -
  show "MONTHLY_COSTS s' = MONTHLY_COSTS s" and "interactive s' = interactive s"
    using rbc_row_frame[OF assms] by simp_all
  show "\<exists>new. transactions s' = transactions s @ new \<and>
           list_all (rbc_included (MONTHLY_COSTS s) month) new \<and>
           length new \<le> 1 \<and>
           map t_core new = List.map_filter (rbc_selected L (MONTHLY_COSTS s) month) [row]"
  proof (cases "row ! 6 = ''CAD$''")
    case True
    with assms have "s' = s"
      by (auto simp: rbc_row_def split: if_splits)
    with True show ?thesis
      by (simp add: List.map_filter_def rbc_selected_def split: option.splits)
  next
    case False
    from assms False obtain d c s1 where d: "py_strptime L (row ! 2) ''%m/%d/%Y'' = Some d"
      and c: "rbc_category L (row ! 4) s = Inr (c, s1)"
      and s': "s' = (if date_month d = month \<and> (\<exists>a. py_float L (row ! 6) = Some a \<and> a < 0)
                  \<and> list_all (\<lambda>k. \<not> str_in k (row ! 4)) (MONTHLY_COSTS s)
               then s1\<lparr>transactions := transactions s @ [(d, row ! 4, c, the (py_float L (row ! 6)))]\<rparr>
               else s1)"
      by (blast elim: rbc_row_Inr)
    show ?thesis
    proof (cases "date_month d = month \<and> (\<exists>a. py_float L (row ! 6) = Some a \<and> a < 0)
                  \<and> list_all (\<lambda>k. \<not> str_in k (row ! 4)) (MONTHLY_COSTS s)")
      case True
      then obtain a where a: "py_float L (row ! 6) = Some a" "a < 0" by blast
      from True s' a have "transactions s' = transactions s @ [(d, row ! 4, c, a)]"
        by simp
      moreover from True a have "rbc_included (MONTHLY_COSTS s) month (d, row ! 4, c, a)"
        by (simp add: rbc_included_def t_date_def t_amount_def t_description_def)
      moreover from True a d False
      have "map t_core [(d, row ! 4, c, a)]
            = List.map_filter (rbc_selected L (MONTHLY_COSTS s) month) [row]"
        by (cases d) (simp add: List.map_filter_def rbc_selected_def t_core_def t_date_def
            t_amount_def t_description_def)
      ultimately show ?thesis
        by (intro exI[of _ "[(d, row ! 4, c, a)]"]) simp
    next
      case F: False
      with s' rbc_category_Inr(1)[OF c] have "transactions s' = transactions s"
        by simp
      moreover from F d have "List.map_filter (rbc_selected L (MONTHLY_COSTS s) month) [row] = []"
        by (auto simp: List.map_filter_def rbc_selected_def split: option.splits)
      ultimately show ?thesis by simp
    qed
  qed
qed

lemma tangerine_row_step:
  assumes "tangerine_row L month row s = Inr s'"
  shows "MONTHLY_COSTS s' = MONTHLY_COSTS s"
    and "interactive s' = interactive s"
    and "\<exists>new. transactions s' = new @ transactions s \<and>
           list_all (tangerine_included L month row) new \<and>
           length new \<le> 1 \<and>
           map t_core new = List.map_filter (tangerine_selected L month) [row]"
proof -
  show "MONTHLY_COSTS s' = MONTHLY_COSTS s" and "interactive s' = interactive s"
    using tangerine_row_frame[OF assms] by simp_all
  show "\<exists>new. transactions s' = new @ transactions s \<and>
           list_all (tangerine_included L month row) new \<and>
           length new \<le> 1 \<and>
           map t_core new = List.map_filter (tangerine_selected L month) [row]"
  proof (cases "row ! 0 = ''Transaction date''")
    case True
    with assms have "s' = s"
      by (auto simp: tangerine_row_def split: if_splits)
    with True show ?thesis
      by (simp add: List.map_filter_def tangerine_selected_def split: option.splits)
  next
    case False
    from assms False obtain d c s1 where d: "py_strptime L (row ! 0) ''%m/%d/%Y'' = Some d"
      and c: "tangerine_category L row s = Inr (c, s1)"
      and 1: "date_month d = month \<and> row ! 1 = ''DEBIT'' \<Longrightarrow>
           4 < length row \<and> (\<exists>a. py_float L (row ! 4) = Some a \<and>
             s' = s1\<lparr>transactions := (d, row ! 2, c, a) # transactions s\<rparr>)"
      and 2: "\<not> (date_month d = month \<and> row ! 1 = ''DEBIT'') \<Longrightarrow> s' = s1"
      by (blast elim: tangerine_row_Inr)
    show ?thesis
    proof (cases "date_month d = month \<and> row ! 1 = ''DEBIT''")
      case True
      from 1[OF True] obtain a where len: "4 < length row" and a: "py_float L (row ! 4) = Some a"
        and s': "s' = s1\<lparr>transactions := (d, row ! 2, c, a) # transactions s\<rparr>"
        by blast
      from s' have "transactions s' = [(d, row ! 2, c, a)] @ transactions s"
        by simp
      moreover from True a d len have "tangerine_included L month row (d, row ! 2, c, a)"
        by (simp add: tangerine_included_def t_date_def t_amount_def t_description_def)
      moreover from True a d False
      have "map t_core [(d, row ! 2, c, a)] = List.map_filter (tangerine_selected L month) [row]"
        by (cases d) (simp add: List.map_filter_def tangerine_selected_def t_core_def t_date_def
            t_amount_def t_description_def)
      ultimately show ?thesis
        by (intro exI[of _ "[(d, row ! 2, c, a)]"]) simp
    next
      case F: False
      from 2[OF F] tangerine_category_Inr(1)[OF c] have "transactions s' = transactions s"
        by simp
      moreover from F d have "List.map_filter (tangerine_selected L month) [row] = []"
        by (auto simp: List.map_filter_def tangerine_selected_def split: option.splits)
      ultimately show ?thesis by simp
    qed
  qed
qed

lemma map_filter_Cons_app:
  "List.map_filter f (x # xs) = List.map_filter f [x] @ List.map_filter f xs"
  by (simp add: List.map_filter_def)

lemma parse_rbc_rows_ledger:
  "parse_rbc_rows L month rows s = Inr s' \<Longrightarrow>
     MONTHLY_COSTS s' = MONTHLY_COSTS s \<and> interactive s' = interactive s \<and>
     (\<exists>new. transactions s' = transactions s @ new \<and>
        list_all (rbc_included (MONTHLY_COSTS s) month) new \<and>
        map t_core new = List.map_filter (rbc_selected L (MONTHLY_COSTS s) month) rows)"
proof (induction rows arbitrary: s)
  case Nil
  then show ?case by (simp add: List.map_filter_def)
next
  case (Cons row rows)
  from Cons.prems obtain s1 where r: "rbc_row L month row s = Inr s1"
    and rest: "parse_rbc_rows L month rows s1 = Inr s'"
    by (auto split: sum.splits)
  from rbc_row_step[OF r] obtain new1 where mc: "MONTHLY_COSTS s1 = MONTHLY_COSTS s"
    and ia: "interactive s1 = interactive s"
    and n1: "transactions s1 = transactions s @ new1"
      "list_all (rbc_included (MONTHLY_COSTS s) month) new1"
      "map t_core new1 = List.map_filter (rbc_selected L (MONTHLY_COSTS s) month) [row]"
    by blast
  from Cons.IH[OF rest] mc ia obtain new2 where mc2: "MONTHLY_COSTS s' = MONTHLY_COSTS s"
    and ia2: "interactive s' = interactive s"
    and n2: "transactions s' = transactions s1 @ new2"
      "list_all (rbc_included (MONTHLY_COSTS s) month) new2"
      "map t_core new2 = List.map_filter (rbc_selected L (MONTHLY_COSTS s) month) rows"
    by auto
  from n1 n2 have "transactions s' = transactions s @ (new1 @ new2) \<and>
        list_all (rbc_included (MONTHLY_COSTS s) month) (new1 @ new2) \<and>
        map t_core (new1 @ new2)
          = List.map_filter (rbc_selected L (MONTHLY_COSTS s) month) (row # rows)"
    by (simp add: map_filter_Cons_app[of _ row rows] del: map_filter_simps)
  with mc2 ia2 show ?case by blast
qed

lemma parse_tangerine_rows_ledger:
  "parse_tangerine_rows L month rows s = Inr s' \<Longrightarrow>
     MONTHLY_COSTS s' = MONTHLY_COSTS s \<and> interactive s' = interactive s \<and>
     (\<exists>new. transactions s' = rev new @ transactions s \<and>
        list_all (\<lambda>t. list_ex (\<lambda>row. tangerine_included L month row t) rows) new \<and>
        map t_core new = List.map_filter (tangerine_selected L month) rows)"
proof (induction rows arbitrary: s)
  case Nil
  then show ?case by (simp add: List.map_filter_def)
next
  case (Cons row rows)
  from Cons.prems obtain s1 where r: "tangerine_row L month row s = Inr s1"
    and rest: "parse_tangerine_rows L month rows s1 = Inr s'"
    by (auto split: sum.splits)
  from tangerine_row_step[OF r] obtain new1 where mc: "MONTHLY_COSTS s1 = MONTHLY_COSTS s"
    and ia: "interactive s1 = interactive s"
    and n1: "transactions s1 = new1 @ transactions s"
      "list_all (tangerine_included L month row) new1"
      "length new1 \<le> 1"
      "map t_core new1 = List.map_filter (tangerine_selected L month) [row]"
    by blast
  from Cons.IH[OF rest] mc ia obtain new2 where mc2: "MONTHLY_COSTS s' = MONTHLY_COSTS s"
    and ia2: "interactive s' = interactive s"
    and n2: "transactions s' = rev new2 @ transactions s1"
      "list_all (\<lambda>t. list_ex (\<lambda>row. tangerine_included L month row t) rows) new2"
      "map t_core new2 = List.map_filter (tangerine_selected L month) rows"
    by auto
  from n1(3) have r1: "rev new1 = new1"
    by (cases new1) auto
  from n1 n2 r1 have "transactions s' = rev (new1 @ new2) @ transactions s"
    by simp
  moreover from n1(2) n2(2)
  have "list_all (\<lambda>t. list_ex (\<lambda>r. tangerine_included L month r t) (row # rows)) (new1 @ new2)"
    by (auto simp: list_all_iff list_ex_iff)
  moreover from n1(4) n2(3)
  have "map t_core (new1 @ new2) = List.map_filter (tangerine_selected L month) (row # rows)"
    by (simp add: map_filter_Cons_app[of _ row rows] del: map_filter_simps)
  ultimately show ?case using mc2 ia2 by blast
qed

section \<open>The loop over the banks and the sort\<close>

lemma ledger_ok_iff:
  "ledger_ok L mc month rows_b ledger \<longleftrightarrow>
     (\<forall>t \<in> set ledger. rbc_included mc month t \<or>
        (\<exists>row \<in> set rows_b. tangerine_included L month row t))"
  by (simp add: ledger_ok_def list_all_iff list_ex_iff)

lemma rows_in_files_rows:
  "i < length files \<Longrightarrow> fs (files ! i) = Some rows \<Longrightarrow> set rows \<subseteq> set (files_rows fs files)"
  by (auto simp: files_rows_def intro!: bexI[of _ "files ! i"])

lemma parse_banks_ledger:
  "parse_banks L fs banks files i month s = Inr s' \<Longrightarrow>
     MONTHLY_COSTS s' = MONTHLY_COSTS s \<and> interactive s' = interactive s \<and>
     (\<forall>t \<in> set (transactions s'). t \<in> set (transactions s) \<or>
        rbc_included (MONTHLY_COSTS s) month t \<or>
        (\<exists>row \<in> set (files_rows fs files). tangerine_included L month row t))"
proof (induction banks arbitrary: i s)
  case Nil
  then show ?case by simp
next
  case (Cons bank banks)
  show ?case
  proof (cases "bank = ''rbc''")
    case True
    with Cons.prems obtain rows s1 where f: "fs (files ! i) = Some rows"
      and p: "parse_rbc_rows L month rows s = Inr s1"
      and rest: "parse_banks L fs banks files (Suc i) month s1 = Inr s'"
      by (auto simp: parse_rbc_def split: if_splits sum.splits option.splits)
    from parse_rbc_rows_ledger[OF p] obtain new where mc: "MONTHLY_COSTS s1 = MONTHLY_COSTS s"
      and ia: "interactive s1 = interactive s"
      and n: "transactions s1 = transactions s @ new"
        "list_all (rbc_included (MONTHLY_COSTS s) month) new"
      by blast
    from Cons.IH[OF rest] mc ia n show ?thesis
      by (auto simp: list_all_iff)
  next
    case no_rbc: False
    show ?thesis
    proof (cases "bank = ''tangerine''")
      case True
      with no_rbc Cons.prems obtain rows s1 where len: "i < length files"
        and f: "fs (files ! i) = Some rows"
        and p: "parse_tangerine_rows L month rows s = Inr s1"
        and rest: "parse_banks L fs banks files (Suc i) month s1 = Inr s'"
        by (auto simp: parse_tangerine_def split: if_splits sum.splits option.splits)
      from parse_tangerine_rows_ledger[OF p] obtain new
        where mc: "MONTHLY_COSTS s1 = MONTHLY_COSTS s"
        and ia: "interactive s1 = interactive s"
        and n: "transactions s1 = rev new @ transactions s"
          "list_all (\<lambda>t. list_ex (\<lambda>row. tangerine_included L month row t) rows) new"
        by blast
      from n(2) rows_in_files_rows[of i files fs rows, OF len f]
      have "\<forall>t \<in> set new. \<exists>row \<in> set (files_rows fs files). tangerine_included L month row t"
        by (auto simp: list_all_iff list_ex_iff)
      with Cons.IH[OF rest] mc ia n(1) show ?thesis
        by auto
    next
      case False
      with no_rbc Cons.prems have "parse_banks L fs banks files (Suc i) month s = Inr s'"
        by simp
      from Cons.IH[OF this] show ?thesis .
    qed
  qed
qed

lemma process_transactions_Inr:
  assumes "process_transactions L fs banks files date s = Inr s'"
  obtains s1 where "parse_banks L fs banks files 0 (date_month date) s = Inr s1"
    and "s' = s1\<lparr>transactions := sort_key t_date (transactions s1)\<rparr>"
  using assms by (auto simp: process_transactions_def split: sum.splits)

section \<open>Runs on valid rows return\<close>

lemma add_category_returns:
  "console s \<noteq> [] \<Longrightarrow>
   \<exists>s'. add_category L t s = Inr s' \<and> interactive s' = interactive s \<and>
        console s' = tl (console s)"
  by (cases "console s") (simp_all add: add_category_def Let_def)

lemma rbc_category_returns:
  assumes "interactive s \<longrightarrow> console s \<noteq> []"
  shows "\<exists>c s'. rbc_category L d s = Inr (c, s') \<and> interactive s' = interactive s \<and>
           length (console s) \<le> Suc (length (console s'))"
proof (cases "dict_get (categories s) d ''Unknown'' = ''Unknown'' \<and> interactive s")
  case True
  with assms have "console s \<noteq> []" by simp
  from add_category_returns[OF this, of L d] obtain s1
    where "add_category L d s = Inr s1" "interactive s1 = interactive s"
      "console s1 = tl (console s)"
    by blast
  with True show ?thesis
    by (simp add: rbc_category_def Let_def)
next
  case False
  then show ?thesis
    by (auto simp: rbc_category_def Let_def)
qed

lemma tangerine_category_returns:
  assumes "interactive s \<longrightarrow> console s \<noteq> []" and "3 < length row"
  shows "\<exists>c s'. tangerine_category L row s = Inr (c, s') \<and> interactive s' = interactive s \<and>
           length (console s) \<le> Suc (length (console s'))"
proof (cases "dict_get (categories s) (row ! 2) ''Unknown'' = ''Unknown'' \<and>
    strip (last (split_chr CHR '':'' (row ! 3))) = [] \<and> interactive s")
  case True
  with assms have "console s \<noteq> []" by simp
  from add_category_returns[OF this, of L "row ! 2"] obtain s1
    where "add_category L (row ! 2) s = Inr s1" "interactive s1 = interactive s"
      "console s1 = tl (console s)"
    by blast
  with True assms(2) show ?thesis
    by (simp add: tangerine_category_def Let_def)
next
  case False
  with assms(2) show ?thesis
    by (auto simp: tangerine_category_def Let_def)
qed

lemma rbc_row_returns:
  assumes "rbc_row_valid L row" and "interactive s \<longrightarrow> console s \<noteq> []"
  shows "\<exists>s'. rbc_row L month row s = Inr s' \<and> interactive s' = interactive s \<and>
           length (console s) \<le> Suc (length (console s'))"
proof (cases "row ! 6 = ''CAD$''")
  case True
  with assms(1) show ?thesis
    by (simp add: rbc_row_def rbc_row_valid_def)
next
  case False
  with assms(1) obtain d a where len: "6 < length row"
    and d: "py_strptime L (row ! 2) ''%m/%d/%Y'' = Some d"
    and a: "py_float L (row ! 6) = Some a"
    by (auto simp: rbc_row_valid_def)
  from rbc_category_returns[OF assms(2), of L "row ! 4"] obtain c s1
    where c: "rbc_category L (row ! 4) s = Inr (c, s1)"
      and f: "interactive s1 = interactive s" "length (console s) \<le> Suc (length (console s1))"
    by blast
  from False len d a c f show ?thesis
    by (simp add: rbc_row_def)
qed

lemma tangerine_row_returns:
  assumes "tangerine_row_valid L row" and "interactive s \<longrightarrow> console s \<noteq> []"
  shows "\<exists>s'. tangerine_row L month row s = Inr s' \<and> interactive s' = interactive s \<and>
           length (console s) \<le> Suc (length (console s'))"
proof (cases "row ! 0 = ''Transaction date''")
  case True
  with assms(1) show ?thesis
    by (auto simp: tangerine_row_def tangerine_row_valid_def)
next
  case False
  with assms(1) obtain d a where len: "4 < length row"
    and d: "py_strptime L (row ! 0) ''%m/%d/%Y'' = Some d"
    and a: "py_float L (row ! 4) = Some a"
    by (auto simp: tangerine_row_valid_def)
  from len have "3 < length row" by simp
  from tangerine_category_returns[OF assms(2) this, of L] obtain c s1
    where c: "tangerine_category L row s = Inr (c, s1)"
      and f: "interactive s1 = interactive s" "length (console s) \<le> Suc (length (console s1))"
    by blast
  from False len d a c f show ?thesis
    by (auto simp: tangerine_row_def)
qed

lemma parse_rbc_rows_returns:
  "list_all (rbc_row_valid L) rows \<Longrightarrow>
   (interactive s \<longrightarrow> length rows \<le> length (console s)) \<Longrightarrow>
   \<exists>s'. parse_rbc_rows L month rows s = Inr s' \<and> interactive s' = interactive s \<and>
        length (console s) \<le> length rows + length (console s')"
proof (induction rows arbitrary: s)
  case Nil
  then show ?case by simp
next
  case (Cons row rows)
  from Cons.prems have v: "rbc_row_valid L row" and vs: "list_all (rbc_row_valid L) rows"
    and ne: "interactive s \<longrightarrow> console s \<noteq> []"
    by auto
  from rbc_row_returns[OF v ne, of month] obtain s1
    where r: "rbc_row L month row s = Inr s1" and i: "interactive s1 = interactive s"
      and l: "length (console s) \<le> Suc (length (console s1))"
    by blast
  from Cons.prems(2) i l have "interactive s1 \<longrightarrow> length rows \<le> length (console s1)"
    by auto
  from Cons.IH[OF vs this] obtain s'
    where "parse_rbc_rows L month rows s1 = Inr s'" "interactive s' = interactive s1"
      "length (console s1) \<le> length rows + length (console s')"
    by blast
  with r i l show ?case by simp
qed

lemma parse_tangerine_rows_returns:
  "list_all (tangerine_row_valid L) rows \<Longrightarrow>
   (interactive s \<longrightarrow> length rows \<le> length (console s)) \<Longrightarrow>
   \<exists>s'. parse_tangerine_rows L month rows s = Inr s' \<and> interactive s' = interactive s \<and>
        length (console s) \<le> length rows + length (console s')"
proof (induction rows arbitrary: s)
  case Nil
  then show ?case by simp
next
  case (Cons row rows)
  from Cons.prems have v: "tangerine_row_valid L row"
    and vs: "list_all (tangerine_row_valid L) rows"
    and ne: "interactive s \<longrightarrow> console s \<noteq> []"
    by auto
  from tangerine_row_returns[OF v ne, of month] obtain s1
    where r: "tangerine_row L month row s = Inr s1" and i: "interactive s1 = interactive s"
      and l: "length (console s) \<le> Suc (length (console s1))"
    by blast
  from Cons.prems(2) i l have "interactive s1 \<longrightarrow> length rows \<le> length (console s1)"
    by auto
  from Cons.IH[OF vs this] obtain s'
    where "parse_tangerine_rows L month rows s1 = Inr s'" "interactive s' = interactive s1"
      "length (console s1) \<le> length rows + length (console s')"
    by blast
  with r i l show ?case by simp
qed

lemma parse_banks_returns:
  "files_valid L fs banks files i \<Longrightarrow>
   (interactive s \<longrightarrow> rows_count fs banks files i \<le> length (console s)) \<Longrightarrow>
   \<exists>s'. parse_banks L fs banks files i month s = Inr s'"
proof (induction banks arbitrary: i s)
  case Nil
  then show ?case by simp
next
  case (Cons bank banks)
  from Cons.prems(1) have rest: "files_valid L fs banks files (Suc i)"
    by simp
  show ?case
  proof (cases "bank = ''rbc''")
    case True
    with Cons.prems(1) obtain rows where len: "i < length files"
      and f: "fs (files ! i) = Some rows" and v: "list_all (rbc_row_valid L) rows"
      by (auto split: option.splits)
    from True f Cons.prems(2)
    have b: "interactive s \<longrightarrow> length rows + rows_count fs banks files (Suc i) \<le> length (console s)"
      by simp
    then have "interactive s \<longrightarrow> length rows \<le> length (console s)"
      by auto
    from parse_rbc_rows_returns[OF v this, of month] obtain s1
      where p: "parse_rbc_rows L month rows s = Inr s1" and ia: "interactive s1 = interactive s"
        and l: "length (console s) \<le> length rows + length (console s1)"
      by blast
    from b ia l have "interactive s1 \<longrightarrow> rows_count fs banks files (Suc i) \<le> length (console s1)"
      by auto
    from Cons.IH[OF rest this] obtain s'
      where "parse_banks L fs banks files (Suc i) month s1 = Inr s'"
      by blast
    with True len f p show ?thesis
      by (simp add: parse_rbc_def)
  next
    case no_rbc: False
    show ?thesis
    proof (cases "bank = ''tangerine''")
      case True
      with no_rbc Cons.prems(1) obtain rows where len: "i < length files"
        and f: "fs (files ! i) = Some rows" and v: "list_all (tangerine_row_valid L) rows"
        by (auto split: option.splits)
      from True f Cons.prems(2)
      have b: "interactive s \<longrightarrow> length rows + rows_count fs banks files (Suc i) \<le> length (console s)"
        by simp
      then have "interactive s \<longrightarrow> length rows \<le> length (console s)"
        by auto
      from parse_tangerine_rows_returns[OF v this, of month] obtain s1
        where p: "parse_tangerine_rows L month rows s = Inr s1"
          and ia: "interactive s1 = interactive s"
          and l: "length (console s) \<le> length rows + length (console s1)"
        by blast
      from b ia l
      have "interactive s1 \<longrightarrow> rows_count fs banks files (Suc i) \<le> length (console s1)"
        by auto
      from Cons.IH[OF rest this] obtain s'
        where "parse_banks L fs banks files (Suc i) month s1 = Inr s'"
        by blast
      with True no_rbc len f p show ?thesis
        by (simp add: parse_tangerine_def)
    next
      case False
      with no_rbc Cons.prems(2)
      have "interactive s \<longrightarrow> rows_count fs banks files (Suc i) \<le> length (console s)"
        by simp
      from Cons.IH[OF rest this] False no_rbc show ?thesis
        by simp
    qed
  qed
qed

section \<open>Writing and reading the dict\<close>

lemma of_char_less_256: "(of_char c :: nat) < 256"
proof -
  have "(of_char c :: nat) mod 256 = of_char c"
    by (rule of_char_mod_256)
  moreover have "(of_char c :: nat) mod 256 < 256"
    by simp
  ultimately show ?thesis by simp
qed

lemma unhex_hex_digit: "n < 16 \<Longrightarrow> unhex (hex_digit n) = Some n"
proof -
  have "list_all (\<lambda>n. unhex (hex_digit n) = Some n) [0..<16]"
    by code_simp
  then show "n < 16 \<Longrightarrow> unhex (hex_digit n) = Some n"
    by (simp add: list_all_iff)
qed

lemma scanstring_escape: "scanstring (json_escape c @ rest) = cons_result c (scanstring rest)"
proof -
  let ?n = "of_char c :: nat"
  consider (short) "c \<in> {CHR 0x22, CHR 0x5C, CHR 0x08, CHR 0x0C, CHR 0x0A, CHR 0x0D, CHR 0x09}"
    | (plain) "c \<notin> {CHR 0x22, CHR 0x5C, CHR 0x08, CHR 0x0C, CHR 0x0A, CHR 0x0D, CHR 0x09}"
        "0x20 \<le> ?n \<and> ?n \<le> 0x7E"
    | (uni) "c \<notin> {CHR 0x22, CHR 0x5C, CHR 0x08, CHR 0x0C, CHR 0x0A, CHR 0x0D, CHR 0x09}"
        "\<not> (0x20 \<le> ?n \<and> ?n \<le> 0x7E)"
    by blast
  then show ?thesis
  proof cases
    case short
    then show ?thesis
      by (auto simp: json_escape_def backslash_def)
  next
    case plain
    then show ?thesis
      by (simp add: json_escape_def)
  next
    case uni
    have d: "?n div 16 < 16"
      using of_char_less_256[of c] by (simp add: div_less_iff_less_mult)
    have m: "?n mod 16 < 16"
      by simp
    have z: "unhex CHR ''0'' = Some 0"
      by (simp add: unhex_def)
    have "char_of (16 * (?n div 16) + ?n mod 16) = c"
      by simp
    with uni z unhex_hex_digit[OF d] unhex_hex_digit[OF m] show ?thesis
      by (simp add: json_escape_def)
  qed
qed

lemma scanstring_encoded:
  "scanstring (concat (map json_escape t) @ CHR 0x22 # rest) = Some (t, rest)"
  by (induction t) (simp_all add: scanstring_escape cons_result_def)

lemma skip_ws_Cons: "skip_ws (c # cs) = (if json_ws c then skip_ws cs else c # cs)"
  by (simp add: skip_ws_def)

lemma encode_items_quote:
  "encode_items (item # items) = CHR 0x22 # tl (encode_items (item # items))"
  by (cases item; cases items) (auto simp: encode_basestring_ascii_def)

lemma members_last:
  "members (concat (map json_escape k) @ CHR 0x22 # CHR '':'' # CHR '' '' # CHR 0x22 #
            concat (map json_escape v) @ CHR 0x22 # CHR ''}'' # rest)
   = Some ([(k, v)], rest)"
  using members.simps[of "concat (map json_escape k) @ CHR 0x22 # CHR '':'' # CHR '' '' #
            CHR 0x22 # concat (map json_escape v) @ CHR 0x22 # CHR ''}'' # rest"]
  by (simp add: scanstring_encoded expect_def skip_ws_Cons json_ws_def)

lemma members_more:
  "members (concat (map json_escape k) @ CHR 0x22 # CHR '':'' # CHR '' '' # CHR 0x22 #
            concat (map json_escape v) @ CHR 0x22 # CHR '','' # CHR '' '' # CHR 0x22 # text)
   = (case members text of None \<Rightarrow> None | Some (its, r) \<Rightarrow> Some ((k, v) # its, r))"
  using members.simps[of "concat (map json_escape k) @ CHR 0x22 # CHR '':'' # CHR '' '' #
            CHR 0x22 # concat (map json_escape v) @ CHR 0x22 # CHR '','' # CHR '' '' #
            CHR 0x22 # text"]
  by (simp add: scanstring_encoded expect_def skip_ws_Cons json_ws_def)

lemma members_encoded:
  "members (tl (encode_items ((k, v) # items)) @ CHR ''}'' # rest) = Some ((k, v) # items, rest)"
proof (induction items arbitrary: k v)
  case Nil
  show ?case
    using members_last[of k v rest] by (simp add: encode_basestring_ascii_def)
next
  case (Cons item items)
  obtain k2 v2 where item: "item = (k2, v2)" by (cases item)
  have "tl (encode_items ((k, v) # (k2, v2) # items)) @ CHR ''}'' # rest
        = concat (map json_escape k) @ CHR 0x22 # CHR '':'' # CHR '' '' # CHR 0x22 #
            concat (map json_escape v) @ CHR 0x22 # CHR '','' # CHR '' '' # CHR 0x22 #
            (tl (encode_items ((k2, v2) # items)) @ CHR ''}'' # rest)"
    using encode_items_quote[of "(k2, v2)" items]
    by (simp add: encode_basestring_ascii_def)
  with members_more[of k v "tl (encode_items ((k2, v2) # items)) @ CHR ''}'' # rest"]
    Cons[of k2 v2] item
  show ?case by simp
qed

lemma dict_of_pairs_distinct:
  "distinct (map fst d) \<Longrightarrow> dict_of_pairs d = d"
proof -
  have "distinct (map fst (acc @ d)) \<Longrightarrow>
        foldl (\<lambda>d (k, v). AList.update k v d) acc d = acc @ d" for acc
  proof (induction d arbitrary: acc)
    case Nil
    then show ?case by simp
  next
    case (Cons kv d)
    obtain k v where kv: "kv = (k, v)" by (cases kv)
    from Cons.prems kv have "map_of acc k = None"
      by (auto simp: map_of_eq_None_iff)
    then have "AList.update k v acc = acc @ [(k, v)]"
      by (rule update_absent)
    with Cons.IH[of "acc @ [(k, v)]"] Cons.prems kv show ?case by simp
  qed
  from this[of "[]"] show "distinct (map fst d) \<Longrightarrow> dict_of_pairs d = d"
    by (simp add: dict_of_pairs_def)
qed

lemma json_loads_dumps: "json_loads (json_dumps d) = Some (dict_of_pairs d)"
proof (cases d)
  case Nil
  then show ?thesis
    by (simp add: json_loads_def json_dumps_def expect_def skip_ws_Cons json_ws_def
        dict_of_pairs_def skip_ws_def)
next
  case (Cons kv items)
  obtain k v where kv: "kv = (k, v)" by (cases kv)
  have hd: "encode_items ((k, v) # items) = CHR 0x22 # tl (encode_items ((k, v) # items))"
    by (rule encode_items_quote)
  have "json_dumps d = CHR ''{'' # CHR 0x22 # (tl (encode_items ((k, v) # items)) @ CHR ''}'' # [])"
    using Cons kv hd by (simp add: json_dumps_def)
  then show ?thesis
    using members_encoded[of k v items "[]"] Cons kv
    by (simp add: json_loads_def expect_def skip_ws_Cons json_ws_def skip_ws_def)
qed

section \<open>The keys of the dict stay distinct\<close>

lemma dict_of_pairs_keys: "distinct (map fst (dict_of_pairs pairs))"
proof -
  have "distinct (map fst acc) \<Longrightarrow>
        distinct (map fst (foldl (\<lambda>d (k, v). AList.update k v d) acc pairs))" for acc
    by (induction pairs arbitrary: acc) (auto simp: distinct_update)
  from this[of "[]"] show ?thesis
    by (simp add: dict_of_pairs_def)
qed

lemma json_loads_keys: "json_loads text = Some d \<Longrightarrow> distinct (map fst d)"
proof -
  assume a: "json_loads text = Some d"
  then have "d = [] \<or> (\<exists>items. d = dict_of_pairs items)"
    unfolding json_loads_def
    by (auto split: option.splits list.splits if_splits prod.splits)
  then show ?thesis
    using dict_of_pairs_keys by auto
qed

lemma get_categories_keys: "get_categories tfs = Inr d \<Longrightarrow> distinct (map fst d)"
proof -
  assume "get_categories tfs = Inr d"
  then have "d = [] \<or> (\<exists>text. json_loads text = Some d)"
    by (auto simp: get_categories_def split: option.splits)
  then show ?thesis
    using json_loads_keys by auto
qed

lemma add_category_keys:
  "add_category L t s = Inr s' \<Longrightarrow> distinct (map fst (categories s))
   \<Longrightarrow> distinct (map fst (categories s'))"
  using add_category_Inr(4)[of L t s s'] by (auto simp: distinct_update)

lemma rbc_category_keys:
  "rbc_category L d s = Inr (c, s') \<Longrightarrow> distinct (map fst (categories s))
   \<Longrightarrow> distinct (map fst (categories s'))"
  by (auto simp: rbc_category_def Let_def distinct_update split: if_splits sum.splits
      dest: add_category_keys)

lemma tangerine_category_keys:
  "tangerine_category L row s = Inr (c, s') \<Longrightarrow> distinct (map fst (categories s))
   \<Longrightarrow> distinct (map fst (categories s'))"
  by (auto simp: tangerine_category_def Let_def distinct_update split: if_splits sum.splits
      dest: add_category_keys)

lemma rbc_row_keys:
  assumes "rbc_row L month row s = Inr s'" and "distinct (map fst (categories s))"
  shows "distinct (map fst (categories s'))"
proof (cases "row ! 6 = ''CAD$''")
  case True
  with assms(1) have "s' = s"
    by (auto simp: rbc_row_def split: if_splits)
  with assms(2) show ?thesis by simp
next
  case False
  from assms(1) False obtain d c s1 where c: "rbc_category L (row ! 4) s = Inr (c, s1)"
    and s': "s' = (if date_month d = month \<and> (\<exists>a. py_float L (row ! 6) = Some a \<and> a < 0)
                  \<and> list_all (\<lambda>k. \<not> str_in k (row ! 4)) (MONTHLY_COSTS s)
               then s1\<lparr>transactions := transactions s @ [(d, row ! 4, c, the (py_float L (row ! 6)))]\<rparr>
               else s1)"
    by (blast elim: rbc_row_Inr)
  from s' have "categories s' = categories s1"
    by (simp split: if_splits)
  with rbc_category_keys[OF c assms(2)] show ?thesis by simp
qed

lemma tangerine_row_keys:
  assumes "tangerine_row L month row s = Inr s'" and "distinct (map fst (categories s))"
  shows "distinct (map fst (categories s'))"
proof (cases "row ! 0 = ''Transaction date''")
  case True
  with assms(1) have "s' = s"
    by (auto simp: tangerine_row_def split: if_splits)
  with assms(2) show ?thesis by simp
next
  case False
  from assms(1) False obtain d c s1 where c: "tangerine_category L row s = Inr (c, s1)"
    and 1: "date_month d = month \<and> row ! 1 = ''DEBIT'' \<Longrightarrow>
           4 < length row \<and> (\<exists>a. py_float L (row ! 4) = Some a \<and>
             s' = s1\<lparr>transactions := (d, row ! 2, c, a) # transactions s\<rparr>)"
    and 2: "\<not> (date_month d = month \<and> row ! 1 = ''DEBIT'') \<Longrightarrow> s' = s1"
    by (blast elim: tangerine_row_Inr)
  have "categories s' = categories s1"
  proof (cases "date_month d = month \<and> row ! 1 = ''DEBIT''")
    case True
    from 1[OF True] obtain a where "s' = s1\<lparr>transactions := (d, row ! 2, c, a) # transactions s\<rparr>"
      by blast
    then show ?thesis by simp
  next
    case F: False
    from 2[OF F] show ?thesis by simp
  qed
  with tangerine_category_keys[OF c assms(2)] show ?thesis by simp
qed

lemma parse_rbc_rows_keys:
  "parse_rbc_rows L month rows s = Inr s' \<Longrightarrow> distinct (map fst (categories s))
   \<Longrightarrow> distinct (map fst (categories s'))"
  by (induction rows arbitrary: s) (auto split: sum.splits dest: rbc_row_keys)

lemma parse_tangerine_rows_keys:
  "parse_tangerine_rows L month rows s = Inr s' \<Longrightarrow> distinct (map fst (categories s))
   \<Longrightarrow> distinct (map fst (categories s'))"
  by (induction rows arbitrary: s) (auto split: sum.splits dest: tangerine_row_keys)

lemma parse_banks_keys:
  "parse_banks L fs banks files i month s = Inr s' \<Longrightarrow> distinct (map fst (categories s))
   \<Longrightarrow> distinct (map fst (categories s'))"
proof (induction banks arbitrary: i s)
  case Nil
  then show ?case by simp
next
  case (Cons bank banks)
  show ?case
  proof (cases "bank = ''rbc''")
    case True
    with Cons.prems(1) obtain rows s1 where p: "parse_rbc_rows L month rows s = Inr s1"
      and rest: "parse_banks L fs banks files (Suc i) month s1 = Inr s'"
      by (auto simp: parse_rbc_def split: if_splits sum.splits option.splits)
    from Cons.IH[OF rest parse_rbc_rows_keys[OF p Cons.prems(2)]] show ?thesis .
  next
    case no_rbc: False
    show ?thesis
    proof (cases "bank = ''tangerine''")
      case True
      with no_rbc Cons.prems(1) obtain rows s1
        where p: "parse_tangerine_rows L month rows s = Inr s1"
        and rest: "parse_banks L fs banks files (Suc i) month s1 = Inr s'"
        by (auto simp: parse_tangerine_def split: if_splits sum.splits option.splits)
      from Cons.IH[OF rest parse_tangerine_rows_keys[OF p Cons.prems(2)]] show ?thesis .
    next
      case False
      with no_rbc Cons.prems(1) have "parse_banks L fs banks files (Suc i) month s = Inr s'"
        by simp
      from Cons.IH[OF this Cons.prems(2)] show ?thesis .
    qed
  qed
qed

section \<open>The ledger of a run with no monthly costs\<close>

lemma rbc_selected_no_costs:
  "rbc_selected L [] month row = rbc_selected_any L month row"
  by (simp add: rbc_selected_def rbc_selected_any_def split: option.splits)

lemma rbc_selected_any_Some:
  "rbc_month_and_sign L month row \<Longrightarrow>
   \<exists>d a. py_strptime L (row ! 2) ''%m/%d/%Y'' = Some d \<and> py_float L (row ! 6) = Some a \<and>
     rbc_selected_any L month row = Some (d, row ! 4, a)"
  by (auto simp: rbc_month_and_sign_def rbc_selected_any_def split: option.splits)

lemma parse_banks_cores:
  "parse_banks L fs banks files i month s = Inr s' \<Longrightarrow> MONTHLY_COSTS s = [] \<Longrightarrow>
   map t_core (transactions s')
     = cli_selected L fs banks files i month (map t_core (transactions s))"
proof (induction banks arbitrary: i s)
  case Nil
  then show ?case by simp
next
  case (Cons bank banks)
  show ?case
  proof (cases "bank = ''rbc''")
    case True
    with Cons.prems(1) obtain rows s1 where f: "fs (files ! i) = Some rows"
      and p: "parse_rbc_rows L month rows s = Inr s1"
      and rest: "parse_banks L fs banks files (Suc i) month s1 = Inr s'"
      by (auto simp: parse_rbc_def split: if_splits sum.splits option.splits)
    from parse_rbc_rows_ledger[OF p] Cons.prems(2) obtain new
      where mc: "MONTHLY_COSTS s1 = []"
      and n: "transactions s1 = transactions s @ new"
        "map t_core new = List.map_filter (rbc_selected L [] month) rows"
      by auto
    from n have "map t_core (transactions s1)
        = map t_core (transactions s) @ List.map_filter (rbc_selected_any L month) rows"
      by (simp add: rbc_selected_no_costs[abs_def])
    with Cons.IH[OF rest mc] True f show ?thesis
      by (simp add: rows_of_def)
  next
    case no_rbc: False
    show ?thesis
    proof (cases "bank = ''tangerine''")
      case True
      with no_rbc Cons.prems(1) obtain rows s1 where f: "fs (files ! i) = Some rows"
        and p: "parse_tangerine_rows L month rows s = Inr s1"
        and rest: "parse_banks L fs banks files (Suc i) month s1 = Inr s'"
        by (auto simp: parse_tangerine_def split: if_splits sum.splits option.splits)
      from parse_tangerine_rows_ledger[OF p] Cons.prems(2) obtain new
        where mc: "MONTHLY_COSTS s1 = []"
        and n: "transactions s1 = rev new @ transactions s"
          "map t_core new = List.map_filter (tangerine_selected L month) rows"
        by auto
      from n(2) have "map t_core (rev new)
          = rev (List.map_filter (tangerine_selected L month) rows)"
        by (simp only: rev_map[symmetric])
      with n(1) have "map t_core (transactions s1)
          = rev (List.map_filter (tangerine_selected L month) rows) @ map t_core (transactions s)"
        by simp
      with Cons.IH[OF rest mc] True no_rbc f show ?thesis
        by (simp add: rows_of_def)
    next
      case False
      with no_rbc Cons.prems(1) have "parse_banks L fs banks files (Suc i) month s = Inr s'"
        by simp
      from Cons.IH[OF this Cons.prems(2)] False no_rbc show ?thesis
        by simp
    qed
  qed
qed

lemma cli_selected_acc:
  "set acc \<subseteq> set (cli_selected L fs banks files i month acc)"
proof (induction banks arbitrary: i acc)
  case Nil
  then show ?case by simp
next
  case (Cons bank banks)
  have "set acc \<subseteq> set (if bank = ''rbc'' then
          acc @ List.map_filter (rbc_selected_any L month) (rows_of fs (files ! i))
        else if bank = ''tangerine'' then
          rev (List.map_filter (tangerine_selected L month) (rows_of fs (files ! i))) @ acc
        else acc)"
    by auto
  also have "\<dots> \<subseteq> set (cli_selected L fs (bank # banks) files i month acc)"
    using Cons.IH by (simp only: cli_selected.simps)
  finally show ?case .
qed

lemma map_filter_member:
  "x \<in> set xs \<Longrightarrow> f x = Some y \<Longrightarrow> y \<in> set (List.map_filter f xs)"
  by (induction xs) (auto simp: List.map_filter_def)

lemma cli_selected_rbc_row:
  "k < length banks \<Longrightarrow> banks ! k = ''rbc'' \<Longrightarrow> fs (files ! (i + k)) = Some rows \<Longrightarrow>
   row \<in> set rows \<Longrightarrow> rbc_selected_any L month row = Some c \<Longrightarrow>
   c \<in> set (cli_selected L fs banks files i month acc)"
proof (induction banks arbitrary: i k acc)
  case Nil
  then show ?case by simp
next
  case (Cons bank banks)
  show ?case
  proof (cases k)
    case 0
    with Cons.prems have b: "bank = ''rbc''" and f: "fs (files ! i) = Some rows"
      by simp_all
    from Cons.prems(4,5) have "c \<in> set (List.map_filter (rbc_selected_any L month) rows)"
      by (rule map_filter_member)
    then have "c \<in> set (acc @ List.map_filter (rbc_selected_any L month) rows)"
      by simp
    with cli_selected_acc[of "acc @ List.map_filter (rbc_selected_any L month) rows"
        L fs banks files "Suc i" month] b f
    show ?thesis
      by (auto simp: rows_of_def)
  next
    case (Suc k')
    with Cons.prems have "k' < length banks" "banks ! k' = ''rbc''"
      "fs (files ! (Suc i + k')) = Some rows"
      by simp_all
    from Cons.IH[OF this Cons.prems(4,5)] show ?thesis
      by (simp only: cli_selected.simps)
  qed
qed

lemma insort_key_map:
  "map f (insort_key (\<lambda>x. k (f x)) x xs) = insort_key k (f x) (map f xs)"
  by (induction xs) simp_all

lemma sort_key_map:
  "map f (sort_key (\<lambda>x. k (f x)) xs) = sort_key k (map f xs)"
  by (induction xs) (simp_all add: insort_key_map)

lemma process_transactions_cores:
  assumes "process_transactions L fs banks files date s = Inr g"
    and "MONTHLY_COSTS s = []"
  shows "map t_core (transactions g)
     = sort_key fst (cli_selected L fs banks files 0 (date_month date)
         (map t_core (transactions s)))"
proof -
  from assms(1) obtain s1
    where b: "parse_banks L fs banks files 0 (date_month date) s = Inr s1"
    and g: "g = s1\<lparr>transactions := sort_key t_date (transactions s1)\<rparr>"
    by (blast elim: process_transactions_Inr)
  have td: "t_date = (\<lambda>t. fst (t_core t))"
    by (simp add: t_core_def fun_eq_iff)
  have "map t_core (sort_key t_date (transactions s1))
      = sort_key fst (map t_core (transactions s1))"
    unfolding td by (rule sort_key_map)
  with g parse_banks_cores[OF b assms(2)] show ?thesis
    by simp
qed

section \<open>The claims\<close>

text \<open>
  C1, as the code has it. For a Bank B row of four or more fields whose description the dict
  does not hold, the last piece of field 3 after a colon is taken and stripped of white
  space. When that piece is empty: in a run that is not interactive the category is
  \<open>Unknown\<close>, and in an interactive run the operator is prompted (add_category is
  called for the description) and the category is the one that the prompt recorded. In both
  cases the dict maps the description to that category afterwards.
\<close>

theorem tangerine_category_empty_segment:
  "(map_of (categories s) (row ! 2) = None \<and> 3 < length row \<and>
      strip (last (split_chr CHR '':'' (row ! 3))) = [] \<and> \<not> interactive s
      \<longrightarrow> tangerine_category L row s =
            Inr (''Unknown'', s\<lparr>categories := categories s @ [(row ! 2, ''Unknown'')]\<rparr>))
   \<and> (map_of (categories s) (row ! 2) = None \<and> 3 < length row \<and>
      strip (last (split_chr CHR '':'' (row ! 3))) = [] \<and> interactive s
      \<longrightarrow> tangerine_category L row s =
            (case add_category L (row ! 2) s of
               Inl e \<Rightarrow> Inl e
             | Inr s1 \<Rightarrow> Inr (dict_get (categories s1) (row ! 2) ''Unknown'', s1)))"
proof (intro conjI impI)
  assume "map_of (categories s) (row ! 2) = None \<and> 3 < length row \<and>
      strip (last (split_chr CHR '':'' (row ! 3))) = [] \<and> \<not> interactive s"
  then show "tangerine_category L row s =
            Inr (''Unknown'', s\<lparr>categories := categories s @ [(row ! 2, ''Unknown'')]\<rparr>)"
    by (simp add: tangerine_category_def dict_get_def update_absent Let_def)
next
  assume a: "map_of (categories s) (row ! 2) = None \<and> 3 < length row \<and>
      strip (last (split_chr CHR '':'' (row ! 3))) = [] \<and> interactive s"
  show "tangerine_category L row s =
            (case add_category L (row ! 2) s of
               Inl e \<Rightarrow> Inl e
             | Inr s1 \<Rightarrow> Inr (dict_get (categories s1) (row ! 2) ''Unknown'', s1))"
  proof (cases "add_category L (row ! 2) s")
    case (Inl e)
    with a show ?thesis
      by (simp add: tangerine_category_def dict_get_def Let_def)
  next
    case (Inr s1)
    from add_category_Inr(4)[OF Inr] obtain v
      where "categories s1 = AList.update (row ! 2) v (categories s)" by blast
    then have "map_of (categories s1) (row ! 2) = Some v"
      by (simp add: map_of_update_same)
    then have "AList.update (row ! 2) (dict_get (categories s1) (row ! 2) ''Unknown'')
                  (categories s1) = categories s1"
      by (simp add: dict_get_def update_present)
    with a Inr show ?thesis
      by (simp add: tangerine_category_def dict_get_def Let_def)
  qed
qed

text \<open>
  The theorem at a row whose memo \<open>Interac e-Transfer:\<close> ends in a colon, in a run that is
  not interactive and in an interactive run whose prompt is answered \<open>Gifts\<close>.
\<close>

theorem tangerine_category_empty_segment_witness:
  "strip (last (split_chr CHR '':'' ''Interac e-Transfer: '')) = []
   \<and> tangerine_category py0 [''3/9/2024'', ''DEBIT'', ''Anna'', ''Interac e-Transfer: '', ''-20.00'']
       (ExpenseGrabber [] [] False [])
     = Inr (''Unknown'', ExpenseGrabber [] [(''Anna'', ''Unknown'')] False [])
   \<and> add_category py0 ''Anna'' (ExpenseGrabber [] [] True [''Gifts''])
     = Inr (ExpenseGrabber [] [(''Anna'', ''Gifts'')] True [])
   \<and> tangerine_category py0 [''3/9/2024'', ''DEBIT'', ''Anna'', ''Interac e-Transfer: '', ''-20.00'']
       (ExpenseGrabber [] [] True [''Gifts''])
     = Inr (''Gifts'', ExpenseGrabber [] [(''Anna'', ''Gifts'')] True [])"
proof -
  let ?r = "[''3/9/2024'', ''DEBIT'', ''Anna'', ''Interac e-Transfer: '', ''-20.00'']"
  have 0: "strip (last (split_chr CHR '':'' ''Interac e-Transfer: '')) = []"
    by (simp add: strip_def py_isspace_def)
  have 1: "add_category py0 ''Anna'' (ExpenseGrabber [] [] True [''Gifts''])
     = Inr (ExpenseGrabber [] [(''Anna'', ''Gifts'')] True [])"
    by (simp add: add_category_def get_unique_categories_def py_index_def ExpenseGrabber_def
        py0_simps Let_def)
  have 2: "tangerine_category py0 ?r (ExpenseGrabber [] [] False [])
     = Inr (''Unknown'', ExpenseGrabber [] [(''Anna'', ''Unknown'')] False [])"
    using 0 tangerine_category_empty_segment[where s = "ExpenseGrabber [] [] False []"
        and row = ?r and L = py0]
    by (simp add: ExpenseGrabber_def)
  have 3: "tangerine_category py0 ?r (ExpenseGrabber [] [] True [''Gifts''])
     = Inr (''Gifts'', ExpenseGrabber [] [(''Anna'', ''Gifts'')] True [])"
    using 0 1 tangerine_category_empty_segment[where s = "ExpenseGrabber [] [] True [''Gifts'']"
        and row = ?r and L = py0]
    by (simp add: ExpenseGrabber_def dict_get_def)
  from 0 1 2 3 show ?thesis by blast
qed

text \<open>
  C1 as it is written fails. The description \<open>Grocer\<close> is not in the dict and the memo is
  \<open>Rewards: Grocery\<close>, whose last piece, stripped, is \<open>Grocery\<close>. In a run that is not
  interactive the category is \<open>Unknown\<close>, not \<open>Grocery\<close>; in an interactive run the
  category is \<open>Unknown\<close> too, and the operator is not prompted: the line \<open>Food\<close> is still
  to be read.
\<close>

theorem derived_category_not_used:
  "strip (last (split_chr CHR '':'' ''Rewards: Grocery'')) = ''Grocery''
   \<and> tangerine_category py0 [''3/9/2024'', ''DEBIT'', ''Grocer'', ''Rewards: Grocery'', ''-20.00'']
       (ExpenseGrabber [] [] False [])
     = Inr (''Unknown'', ExpenseGrabber [] [(''Grocer'', ''Unknown'')] False [])
   \<and> tangerine_category py0 [''3/9/2024'', ''DEBIT'', ''Grocer'', ''Rewards: Grocery'', ''-20.00'']
       (ExpenseGrabber [] [] True [''Food''])
     = Inr (''Unknown'', ExpenseGrabber [] [(''Grocer'', ''Unknown'')] True [''Food''])"
  by (simp add: tangerine_category_def dict_get_def ExpenseGrabber_def strip_def py_isspace_def
      Let_def)

text \<open>
  C2. For every Bank A row of seven or more fields: when field 6 is the text CAD$ the row is
  skipped and the state is unchanged, whatever the other fields are. Otherwise, when the body
  of the loop returns, exactly one transaction has been appended to the ledger if the month of
  the parsed date is the target month, the amount is negative and no string of MONTHLY_COSTS
  occurs in field 4, and the ledger is unchanged if not. The body returns on every valid
  row, provided that a line is left on the console when the run is interactive.
\<close>

theorem rbc_row_inclusion:
  "(6 < length row \<and> row ! 6 = ''CAD$'' \<longrightarrow> rbc_row L month row s = Inr s)
   \<and> (row ! 6 \<noteq> ''CAD$'' \<and> rbc_row L month row s = Inr s' \<longrightarrow>
        (if (\<exists>d a. py_strptime L (row ! 2) ''%m/%d/%Y'' = Some d \<and> date_month d = month \<and>
                   py_float L (row ! 6) = Some a \<and> a < 0)
            \<and> list_all (\<lambda>k. \<not> str_in k (row ! 4)) (MONTHLY_COSTS s)
         then \<exists>d c a. py_strptime L (row ! 2) ''%m/%d/%Y'' = Some d \<and>
                 py_float L (row ! 6) = Some a \<and>
                 transactions s' = transactions s @ [(d, row ! 4, c, a)]
         else transactions s' = transactions s))
   \<and> (rbc_row_valid L row \<and> (interactive s \<longrightarrow> console s \<noteq> []) \<longrightarrow>
        \<not> isl (rbc_row L month row s))"
proof (intro conjI impI)
  assume "6 < length row \<and> row ! 6 = ''CAD$''"
  then show "rbc_row L month row s = Inr s"
    by (simp add: rbc_row_def)
next
  assume a: "row ! 6 \<noteq> ''CAD$'' \<and> rbc_row L month row s = Inr s'"
  then obtain d c s1 where d: "py_strptime L (row ! 2) ''%m/%d/%Y'' = Some d"
    and c: "rbc_category L (row ! 4) s = Inr (c, s1)"
    and s': "s' = (if date_month d = month \<and> (\<exists>a. py_float L (row ! 6) = Some a \<and> a < 0)
                  \<and> list_all (\<lambda>k. \<not> str_in k (row ! 4)) (MONTHLY_COSTS s)
               then s1\<lparr>transactions := transactions s @ [(d, row ! 4, c, the (py_float L (row ! 6)))]\<rparr>
               else s1)"
    by (auto elim: rbc_row_Inr)
  from rbc_category_Inr(1)[OF c] d s'
  show "if (\<exists>d a. py_strptime L (row ! 2) ''%m/%d/%Y'' = Some d \<and> date_month d = month \<and>
                   py_float L (row ! 6) = Some a \<and> a < 0)
            \<and> list_all (\<lambda>k. \<not> str_in k (row ! 4)) (MONTHLY_COSTS s)
         then \<exists>d c a. py_strptime L (row ! 2) ''%m/%d/%Y'' = Some d \<and>
                 py_float L (row ! 6) = Some a \<and>
                 transactions s' = transactions s @ [(d, row ! 4, c, a)]
         else transactions s' = transactions s"
    by auto
next
  assume "rbc_row_valid L row \<and> (interactive s \<longrightarrow> console s \<noteq> [])"
  then have "\<exists>s'. rbc_row L month row s = Inr s'"
    using rbc_row_returns[of L row s month] by blast
  then show "\<not> isl (rbc_row L month row s)"
    by auto
qed

theorem rbc_row_inclusion_witness:
  "rbc_row py0 3 [''Account Type'', ''Account Number'', ''Transaction Date'', ''Cheque Number'',
                  ''Description 1'', ''Description 2'', ''CAD$'', ''USD$'']
      (ExpenseGrabber [''RENT''] [] False [])
     = Inr (ExpenseGrabber [''RENT''] [] False [])
   \<and> rbc_row py0 3 [''Visa'', ''4510'', ''3/5/2024'', '''', ''Coffee Shop'', '''', ''-4.50'', '''']
      (ExpenseGrabber [''RENT''] [] False [])
     = Inr \<lparr>transactions = [((2024, 3, 5), ''Coffee Shop'', ''Unknown'', - 4.5)],
            MONTHLY_COSTS = [''RENT''], categories = [(''Coffee Shop'', ''Unknown'')],
            interactive = False, console = []\<rparr>
   \<and> \<not> isl (rbc_row py0 3 [''Visa'', ''4510'', ''3/5/2024'', '''', ''Coffee Shop'', '''', ''-4.50'', '''']
             (ExpenseGrabber [''RENT''] [] False []))"
proof -
  let ?s = "ExpenseGrabber [''RENT''] [] False []"
  let ?h = "[''Account Type'', ''Account Number'', ''Transaction Date'', ''Cheque Number'',
             ''Description 1'', ''Description 2'', ''CAD$'', ''USD$'']"
  let ?r = "[''Visa'', ''4510'', ''3/5/2024'', '''', ''Coffee Shop'', '''', ''-4.50'', '''']"
  have 1: "6 < length ?h \<and> ?h ! 6 = ''CAD$''" by simp
  have 2: "rbc_row_valid py0 ?r \<and> (interactive ?s \<longrightarrow> console ?s \<noteq> [])"
    by (simp add: rbc_row_valid_def ExpenseGrabber_def py0_simps)
  have 3: "rbc_row py0 3 ?r ?s
     = Inr \<lparr>transactions = [((2024, 3, 5), ''Coffee Shop'', ''Unknown'', - 4.5)],
            MONTHLY_COSTS = [''RENT''], categories = [(''Coffee Shop'', ''Unknown'')],
            interactive = False, console = []\<rparr>"
    by (simp add: rbc_row_def rbc_category_def dict_get_def ExpenseGrabber_def py0_simps
        date_month_def Let_def)
  from 1 2 3 rbc_row_inclusion[of ?h py0 3 ?s] rbc_row_inclusion[of ?r py0 3 ?s]
  show ?thesis by simp
qed

text \<open>
  C3, as the code has it. A row that the loop reaches and that is not a marker or header row
  aborts the run with an error when its date does not parse, whatever its other fields are.
  A row whose amount is not a number aborts the run when the amount is converted: for
  Bank A when the month of the date is the target month, for Bank B when the month is the
  target month and field 1 is DEBIT. The error of the row is the result of the whole loop:
  the rows after it are not read. In a run that is not interactive these are the only rows
  of full length on which the body of a loop raises.
\<close>

theorem bad_row_aborts:
  "(parse_rbc_rows L month pre s = Inr s1 \<and> 6 < length row \<and> row ! 6 \<noteq> ''CAD$'' \<and>
      (py_strptime L (row ! 2) ''%m/%d/%Y'' = None \<or>
       (\<exists>d. py_strptime L (row ! 2) ''%m/%d/%Y'' = Some d \<and> date_month d = month \<and>
            py_float L (row ! 6) = None))
      \<longrightarrow> isl (parse_rbc_rows L month (pre @ row # post) s))
   \<and> (parse_tangerine_rows L month pre s = Inr s1 \<and> row \<noteq> [] \<and>
        row ! 0 \<noteq> ''Transaction date'' \<and>
      (py_strptime L (row ! 0) ''%m/%d/%Y'' = None \<or>
       (\<exists>d. py_strptime L (row ! 0) ''%m/%d/%Y'' = Some d \<and> date_month d = month \<and>
            row ! 1 = ''DEBIT'' \<and> py_float L (row ! 4) = None))
      \<longrightarrow> isl (parse_tangerine_rows L month (pre @ row # post) s))
   \<and> (6 < length row \<and> row ! 6 \<noteq> ''CAD$'' \<and> \<not> interactive s \<longrightarrow>
        isl (rbc_row L month row s) =
          (py_strptime L (row ! 2) ''%m/%d/%Y'' = None \<or>
           (\<exists>d. py_strptime L (row ! 2) ''%m/%d/%Y'' = Some d \<and> date_month d = month \<and>
                py_float L (row ! 6) = None)))
   \<and> (4 < length row \<and> row ! 0 \<noteq> ''Transaction date'' \<and> \<not> interactive s \<longrightarrow>
        isl (tangerine_row L month row s) =
          (py_strptime L (row ! 0) ''%m/%d/%Y'' = None \<or>
           (\<exists>d. py_strptime L (row ! 0) ''%m/%d/%Y'' = Some d \<and> date_month d = month \<and>
                row ! 1 = ''DEBIT'' \<and> py_float L (row ! 4) = None)))"
proof (intro conjI impI)
  assume a: "parse_rbc_rows L month pre s = Inr s1 \<and> 6 < length row \<and> row ! 6 \<noteq> ''CAD$'' \<and>
      (py_strptime L (row ! 2) ''%m/%d/%Y'' = None \<or>
       (\<exists>d. py_strptime L (row ! 2) ''%m/%d/%Y'' = Some d \<and> date_month d = month \<and>
            py_float L (row ! 6) = None))"
  then have "isl (rbc_row L month row s1)"
    using rbc_row_bad_date[of row L month s1] rbc_row_bad_amount[of row L _ month s1] by auto
  with a show "isl (parse_rbc_rows L month (pre @ row # post) s)"
    by (auto simp: parse_rbc_rows_append split: sum.splits)
next
  assume a: "parse_tangerine_rows L month pre s = Inr s1 \<and> row \<noteq> [] \<and>
        row ! 0 \<noteq> ''Transaction date'' \<and>
      (py_strptime L (row ! 0) ''%m/%d/%Y'' = None \<or>
       (\<exists>d. py_strptime L (row ! 0) ''%m/%d/%Y'' = Some d \<and> date_month d = month \<and>
            row ! 1 = ''DEBIT'' \<and> py_float L (row ! 4) = None))"
  then have "isl (tangerine_row L month row s1)"
    using tangerine_row_bad_date[of row L month s1] tangerine_row_bad_amount[of row L _ month s1]
    by auto
  with a show "isl (parse_tangerine_rows L month (pre @ row # post) s)"
    by (auto simp: parse_tangerine_rows_append split: sum.splits)
next
  assume "6 < length row \<and> row ! 6 \<noteq> ''CAD$'' \<and> \<not> interactive s"
  then show "isl (rbc_row L month row s) =
          (py_strptime L (row ! 2) ''%m/%d/%Y'' = None \<or>
           (\<exists>d. py_strptime L (row ! 2) ''%m/%d/%Y'' = Some d \<and> date_month d = month \<and>
                py_float L (row ! 6) = None))"
    by (auto simp: rbc_row_def rbc_category_batch split: option.splits)
next
  assume a: "4 < length row \<and> row ! 0 \<noteq> ''Transaction date'' \<and> \<not> interactive s"
  then have "3 < length row" and "interactive s \<longrightarrow> console s \<noteq> []"
    by simp_all
  from tangerine_category_returns[OF this(2) this(1), of L] obtain c s1
    where "tangerine_category L row s = Inr (c, s1)"
    by blast
  with a show "isl (tangerine_row L month row s) =
          (py_strptime L (row ! 0) ''%m/%d/%Y'' = None \<or>
           (\<exists>d. py_strptime L (row ! 0) ''%m/%d/%Y'' = Some d \<and> date_month d = month \<and>
                row ! 1 = ''DEBIT'' \<and> py_float L (row ! 4) = None))"
    by (auto simp: tangerine_row_def split: option.splits)
qed

text \<open>
  The theorem at a Bank A file whose second row has the amount \<open>abc\<close> in the target month,
  and at a Bank B file whose second row has a date that does not parse: both runs end in an
  error, and the third row is never added.
\<close>

theorem bad_row_aborts_witness:
  "parse_rbc_rows py0 3 [[''Visa'', ''4510'', ''3/5/2024'', '''', ''Coffee Shop'', '''', ''-4.50'', '''']]
       (ExpenseGrabber [] [] False [])
     = Inr \<lparr>transactions = [((2024, 3, 5), ''Coffee Shop'', ''Unknown'', - 4.5)],
            MONTHLY_COSTS = [], categories = [(''Coffee Shop'', ''Unknown'')],
            interactive = False, console = []\<rparr>
   \<and> py_strptime py0 ''3/9/2024'' ''%m/%d/%Y'' = Some (2024, 3, 9)
   \<and> py_float py0 ''abc'' = None
   \<and> isl (parse_rbc_rows py0 3
        ([[''Visa'', ''4510'', ''3/5/2024'', '''', ''Coffee Shop'', '''', ''-4.50'', '''']]
         @ [''Visa'', ''4510'', ''3/9/2024'', '''', ''Grocer'', '''', ''abc'', '''']
         # [[''Visa'', ''4510'', ''3/10/2024'', '''', ''Baker'', '''', ''-2.00'', '''']])
        (ExpenseGrabber [] [] False []))
   \<and> parse_tangerine_rows py0 3
        [[''Transaction date'', ''Transaction'', ''Name'', ''Memo'', ''Amount'']]
        (ExpenseGrabber [] [] False [])
     = Inr (ExpenseGrabber [] [] False [])
   \<and> py_strptime py0 ''March 9'' ''%m/%d/%Y'' = None
   \<and> isl (parse_tangerine_rows py0 3
        ([[''Transaction date'', ''Transaction'', ''Name'', ''Memo'', ''Amount'']]
         @ [''March 9'', ''CREDIT'', ''Payroll'', ''Deposit'', ''100.00'']
         # [[''3/10/2024'', ''DEBIT'', ''Baker'', ''Category: Food'', ''-2.00'']])
        (ExpenseGrabber [] [] False []))"
proof -
  let ?s = "ExpenseGrabber [] [] False []"
  let ?a1 = "[''Visa'', ''4510'', ''3/5/2024'', '''', ''Coffee Shop'', '''', ''-4.50'', '''']"
  let ?a2 = "[''Visa'', ''4510'', ''3/9/2024'', '''', ''Grocer'', '''', ''abc'', '''']"
  let ?a3 = "[''Visa'', ''4510'', ''3/10/2024'', '''', ''Baker'', '''', ''-2.00'', '''']"
  let ?s1 = "\<lparr>transactions = [((2024, 3, 5), ''Coffee Shop'', ''Unknown'', - 4.5)],
            MONTHLY_COSTS = [], categories = [(''Coffee Shop'', ''Unknown'')],
            interactive = False, console = []\<rparr>"
  let ?b1 = "[''Transaction date'', ''Transaction'', ''Name'', ''Memo'', ''Amount'']"
  let ?b2 = "[''March 9'', ''CREDIT'', ''Payroll'', ''Deposit'', ''100.00'']"
  let ?b3 = "[''3/10/2024'', ''DEBIT'', ''Baker'', ''Category: Food'', ''-2.00'']"
  have 1: "parse_rbc_rows py0 3 [?a1] ?s = Inr ?s1"
    by (simp add: rbc_row_def rbc_category_def dict_get_def ExpenseGrabber_def py0_simps
        date_month_def Let_def)
  have 2: "py_strptime py0 ''3/9/2024'' ''%m/%d/%Y'' = Some (2024, 3, 9)"
    by (simp add: py0_simps)
  have 3: "py_float py0 ''abc'' = None"
    by (simp add: py0_simps)
  have 4: "parse_tangerine_rows py0 3 [?b1] ?s = Inr ?s"
    by (simp add: tangerine_row_def)
  have 5: "py_strptime py0 ''March 9'' ''%m/%d/%Y'' = None"
    by (simp add: py0_simps)
  have 6: "isl (parse_rbc_rows py0 3 ([?a1] @ ?a2 # [?a3]) ?s)"
    using 1 2 3 bad_row_aborts[where L = py0 and month = 3 and pre = "[?a1]" and s = ?s
        and ?s1.0 = ?s1 and row = ?a2 and post = "[?a3]"]
    by (simp add: date_month_def)
  have 7: "isl (parse_tangerine_rows py0 3 ([?b1] @ ?b2 # [?b3]) ?s)"
    using 4 5 bad_row_aborts[where L = py0 and month = 3 and pre = "[?b1]" and s = ?s
        and ?s1.0 = ?s and row = ?b2 and post = "[?b3]"]
    by simp
  from 1 2 3 4 5 6 7 show ?thesis by blast
qed

text \<open>
  C3 as it is written fails: a Bank A row whose amount is the text \<open>abc\<close> and whose date
  is in April is processed without an error when the target month is March. Its category is
  recorded, it is not added to the ledger, and the loop goes on to the next row.
\<close>

theorem non_numeric_amount_no_error:
  "py_float py0 ''abc'' = None
   \<and> parse_rbc_rows py0 3
        [[''Visa'', ''4510'', ''4/5/2024'', '''', ''Grocer'', '''', ''abc'', ''''],
         [''Visa'', ''4510'', ''3/10/2024'', '''', ''Baker'', '''', ''-2.00'', '''']]
        (ExpenseGrabber [] [] False [])
     = Inr \<lparr>transactions = [((2024, 3, 10), ''Baker'', ''Unknown'', - 2)],
            MONTHLY_COSTS = [],
            categories = [(''Grocer'', ''Unknown''), (''Baker'', ''Unknown'')],
            interactive = False, console = []\<rparr>
   \<and> parse_tangerine_rows py0 3
        [[''3/9/2024'', ''CREDIT'', ''Payroll'', ''Deposit'', ''abc'']]
        (ExpenseGrabber [] [] False [])
     = Inr \<lparr>transactions = [], MONTHLY_COSTS = [],
            categories = [(''Payroll'', ''Unknown'')],
            interactive = False, console = []\<rparr>"
  by (simp add: rbc_row_def rbc_category_def tangerine_row_def tangerine_category_def
      dict_get_def ExpenseGrabber_def py0_simps date_month_def Let_def)

text \<open>
  C4. Every transaction of the ledger passes the month filter and the filter of its bank,
  at every point of the parsing and after it. A row of Bank A adds at most one transaction,
  at the end, and that transaction is in the target month, has a negative amount and a
  description in which no monthly cost occurs. A row of Bank B adds at most one transaction,
  at the front, and that transaction is in the target month and is made from the row, whose
  field 1 is DEBIT. So the invariant \<open>ledger_ok\<close> is kept by each loop over the rows of a
  file, whatever number of rows has been read, and by process_transactions with its sort.
\<close>

theorem ledger_invariant:
  "(rbc_row L month row s = Inr s' \<longrightarrow>
      transactions s' = transactions s \<or>
      (\<exists>t. transactions s' = transactions s @ [t] \<and> rbc_included (MONTHLY_COSTS s) month t))
   \<and> (tangerine_row L month row s = Inr s' \<longrightarrow>
      transactions s' = transactions s \<or>
      (\<exists>t. transactions s' = t # transactions s \<and> tangerine_included L month row t))
   \<and> (ledger_ok L (MONTHLY_COSTS s) month rows_b (transactions s) \<and>
        parse_rbc_rows L month rows s = Inr s' \<longrightarrow>
      ledger_ok L (MONTHLY_COSTS s') month rows_b (transactions s'))
   \<and> (ledger_ok L (MONTHLY_COSTS s) month rows_b (transactions s) \<and>
        parse_tangerine_rows L month rows s = Inr s' \<longrightarrow>
      ledger_ok L (MONTHLY_COSTS s') month (rows_b @ rows) (transactions s'))
   \<and> (ledger_ok L (MONTHLY_COSTS s) (date_month date) rows_b (transactions s) \<and>
        process_transactions L fs banks files date s = Inr s' \<longrightarrow>
      ledger_ok L (MONTHLY_COSTS s') (date_month date) (rows_b @ files_rows fs files)
        (transactions s'))"
proof (intro conjI impI)
  assume a: "rbc_row L month row s = Inr s'"
  from rbc_row_step(3)[OF a] obtain new where n: "transactions s' = transactions s @ new"
    "list_all (rbc_included (MONTHLY_COSTS s) month) new" "length new \<le> 1"
    by blast
  show "transactions s' = transactions s \<or>
      (\<exists>t. transactions s' = transactions s @ [t] \<and> rbc_included (MONTHLY_COSTS s) month t)"
  proof (cases new)
    case Nil
    with n show ?thesis by simp
  next
    case (Cons t ts)
    with n have "new = [t]" "rbc_included (MONTHLY_COSTS s) month t" by simp_all
    with n show ?thesis by blast
  qed
next
  assume a: "tangerine_row L month row s = Inr s'"
  from tangerine_row_step(3)[OF a] obtain new where n: "transactions s' = new @ transactions s"
    "list_all (tangerine_included L month row) new" "length new \<le> 1"
    by blast
  show "transactions s' = transactions s \<or>
      (\<exists>t. transactions s' = t # transactions s \<and> tangerine_included L month row t)"
  proof (cases new)
    case Nil
    with n show ?thesis by simp
  next
    case (Cons t ts)
    with n have "new = [t]" "tangerine_included L month row t" by simp_all
    with n show ?thesis by auto
  qed
next
  assume a: "ledger_ok L (MONTHLY_COSTS s) month rows_b (transactions s) \<and>
        parse_rbc_rows L month rows s = Inr s'"
  from parse_rbc_rows_ledger[of L month rows s s'] a
  obtain new where mc: "MONTHLY_COSTS s' = MONTHLY_COSTS s"
    and n: "transactions s' = transactions s @ new"
      "list_all (rbc_included (MONTHLY_COSTS s) month) new"
    by blast
  with a show "ledger_ok L (MONTHLY_COSTS s') month rows_b (transactions s')"
    by (auto simp: ledger_ok_iff list_all_iff)
next
  assume a: "ledger_ok L (MONTHLY_COSTS s) month rows_b (transactions s) \<and>
        parse_tangerine_rows L month rows s = Inr s'"
  from parse_tangerine_rows_ledger[of L month rows s s'] a
  obtain new where mc: "MONTHLY_COSTS s' = MONTHLY_COSTS s"
    and n: "transactions s' = rev new @ transactions s"
      "list_all (\<lambda>t. list_ex (\<lambda>row. tangerine_included L month row t) rows) new"
    by blast
  with a show "ledger_ok L (MONTHLY_COSTS s') month (rows_b @ rows) (transactions s')"
    by (auto simp: ledger_ok_iff list_all_iff list_ex_iff)
next
  assume a: "ledger_ok L (MONTHLY_COSTS s) (date_month date) rows_b (transactions s) \<and>
        process_transactions L fs banks files date s = Inr s'"
  then obtain s1 where p: "parse_banks L fs banks files 0 (date_month date) s = Inr s1"
    and s': "s' = s1\<lparr>transactions := sort_key t_date (transactions s1)\<rparr>"
    by (blast elim: process_transactions_Inr)
  from parse_banks_ledger[OF p] s' a
  show "ledger_ok L (MONTHLY_COSTS s') (date_month date) (rows_b @ files_rows fs files)
        (transactions s')"
    by (auto simp: ledger_ok_iff)
qed

text \<open>
  The theorem at the example run: the ledger is empty at the start, the run returns, and the
  five transactions of its ledger satisfy the invariant.
\<close>

theorem ledger_invariant_witness:
  "ledger_ok py0 [''RENT''] 3 [] []
   \<and> process_transactions py0 example_files [''rbc'', ''tangerine'']
        [''rbc.csv'', ''tangerine.csv''] (2024, 3, 1) (ExpenseGrabber [''RENT''] [] False [])
     = Inr example_result
   \<and> ledger_ok py0 [''RENT''] 3
        ([] @ files_rows example_files [''rbc.csv'', ''tangerine.csv''])
        (transactions example_result)
   \<and> length (transactions example_result) = 5"
proof -
  let ?s = "ExpenseGrabber [''RENT''] [] False []"
  have 0: "ledger_ok py0 (MONTHLY_COSTS ?s) (date_month (2024, 3, 1)) [] (transactions ?s)"
    by (simp add: ledger_ok_def ExpenseGrabber_def)
  have 1: "parse_banks py0 example_files [''rbc'', ''tangerine''] [''rbc.csv'', ''tangerine.csv'']
      0 3 ?s = Inr (example_result\<lparr>transactions := example_ledger\<rparr>)"
    by (simp add: parse_rbc_def parse_tangerine_def example_files_def example_rbc_rows_def
      example_tangerine_rows_def rbc_row_def rbc_category_def tangerine_row_def
      tangerine_category_def dict_get_def ExpenseGrabber_def py0_simps date_month_def Let_def
      example_result_def example_ledger_def example_categories_def)
  have 2: "sort_key t_date example_ledger = transactions example_result"
    by (simp add: example_ledger_def example_result_def t_date_def)
  have 3: "process_transactions py0 example_files [''rbc'', ''tangerine'']
        [''rbc.csv'', ''tangerine.csv''] (2024, 3, 1) ?s = Inr example_result"
    using 1 2 by (simp add: process_transactions_def date_month_def example_result_def)
  have 4: "MONTHLY_COSTS example_result = [''RENT''] \<and> MONTHLY_COSTS ?s = [''RENT'']
      \<and> date_month (2024, 3, 1) = 3 \<and> transactions ?s = []"
    by (simp add: example_result_def ExpenseGrabber_def date_month_def)
  from 0 3 4 ledger_invariant[where L = py0 and s = ?s and s' = example_result
      and date = "(2024, 3, 1)" and fs = example_files and banks = "[''rbc'', ''tangerine'']"
      and files = "[''rbc.csv'', ''tangerine.csv'']" and rows_b = "[]"]
  have 5: "ledger_ok py0 [''RENT''] 3
        ([] @ files_rows example_files [''rbc.csv'', ''tangerine.csv''])
        (transactions example_result)"
    by simp
  have 6: "length (transactions example_result) = 5"
    by (simp add: example_result_def)
  from 0 3 4 5 6 show ?thesis by simp
qed

text \<open>
  C5. When the body of either loop returns on a row that is not skipped, the dict
  \<open>categories\<close> maps the description of the row to the category resolved for the row (the
  value of the local variable \<open>category\<close>), whether or not the row was added to the ledger;
  a transaction that was added carries that category. In a run that is not interactive a
  description that the dict did not hold is mapped to the default \<open>Unknown\<close>.
\<close>

theorem category_recorded:
  "(row ! 6 \<noteq> ''CAD$'' \<and> rbc_row L month row s = Inr s' \<longrightarrow>
      (\<exists>c s1. rbc_category L (row ! 4) s = Inr (c, s1) \<and> categories s' = categories s1 \<and>
          map_of (categories s') (row ! 4) = Some c \<and>
          (transactions s' = transactions s \<or>
           (\<exists>d a. transactions s' = transactions s @ [(d, row ! 4, c, a)]))))
   \<and> (row ! 0 \<noteq> ''Transaction date'' \<and> tangerine_row L month row s = Inr s' \<longrightarrow>
      (\<exists>c s1. tangerine_category L row s = Inr (c, s1) \<and> categories s' = categories s1 \<and>
          map_of (categories s') (row ! 2) = Some c \<and>
          (transactions s' = transactions s \<or>
           (\<exists>d a. transactions s' = (d, row ! 2, c, a) # transactions s))))
   \<and> (\<not> interactive s \<and> map_of (categories s) (row ! 4) = None \<and> row ! 6 \<noteq> ''CAD$'' \<and>
        rbc_row L month row s = Inr s' \<longrightarrow>
          categories s' = categories s @ [(row ! 4, ''Unknown'')])
   \<and> (\<not> interactive s \<and> map_of (categories s) (row ! 2) = None \<and>
        row ! 0 \<noteq> ''Transaction date'' \<and> tangerine_row L month row s = Inr s' \<longrightarrow>
          categories s' = categories s @ [(row ! 2, ''Unknown'')])"
proof (intro conjI impI)
  assume a: "row ! 6 \<noteq> ''CAD$'' \<and> rbc_row L month row s = Inr s'"
  then obtain d c s1 where c: "rbc_category L (row ! 4) s = Inr (c, s1)"
    and s': "s' = (if date_month d = month \<and> (\<exists>a. py_float L (row ! 6) = Some a \<and> a < 0)
                  \<and> list_all (\<lambda>k. \<not> str_in k (row ! 4)) (MONTHLY_COSTS s)
               then s1\<lparr>transactions := transactions s @ [(d, row ! 4, c, the (py_float L (row ! 6)))]\<rparr>
               else s1)"
    by (blast elim: rbc_row_Inr)
  from s' have cs: "categories s' = categories s1"
    by (simp split: if_splits)
  from s' rbc_category_Inr(1)[OF c]
  have "transactions s' = transactions s \<or>
        transactions s' = transactions s @ [(d, row ! 4, c, the (py_float L (row ! 6)))]"
    by (simp split: if_splits)
  then have "transactions s' = transactions s \<or>
           (\<exists>d a. transactions s' = transactions s @ [(d, row ! 4, c, a)])"
    by blast
  with cs rbc_category_Inr(4)[OF c]
  have "categories s' = categories s1 \<and> map_of (categories s') (row ! 4) = Some c \<and>
          (transactions s' = transactions s \<or>
           (\<exists>d a. transactions s' = transactions s @ [(d, row ! 4, c, a)]))"
    by simp
  with c show "\<exists>c s1. rbc_category L (row ! 4) s = Inr (c, s1) \<and> categories s' = categories s1 \<and>
          map_of (categories s') (row ! 4) = Some c \<and>
          (transactions s' = transactions s \<or>
           (\<exists>d a. transactions s' = transactions s @ [(d, row ! 4, c, a)]))"
    by blast
next
  assume a: "row ! 0 \<noteq> ''Transaction date'' \<and> tangerine_row L month row s = Inr s'"
  then obtain d c s1 where c: "tangerine_category L row s = Inr (c, s1)"
    and 1: "date_month d = month \<and> row ! 1 = ''DEBIT'' \<Longrightarrow>
           4 < length row \<and> (\<exists>a. py_float L (row ! 4) = Some a \<and>
             s' = s1\<lparr>transactions := (d, row ! 2, c, a) # transactions s\<rparr>)"
    and 2: "\<not> (date_month d = month \<and> row ! 1 = ''DEBIT'') \<Longrightarrow> s' = s1"
    by (blast elim: tangerine_row_Inr)
  have "categories s' = categories s1 \<and>
          (transactions s' = transactions s \<or>
           (\<exists>d a. transactions s' = (d, row ! 2, c, a) # transactions s))"
  proof (cases "date_month d = month \<and> row ! 1 = ''DEBIT''")
    case True
    from 1[OF True] obtain a where "s' = s1\<lparr>transactions := (d, row ! 2, c, a) # transactions s\<rparr>"
      by blast
    then have "categories s' = categories s1 \<and> transactions s' = (d, row ! 2, c, a) # transactions s"
      by simp
    then show ?thesis by blast
  next
    case False
    from 2[OF False] tangerine_category_Inr(1)[OF c] show ?thesis by simp
  qed
  with tangerine_category_Inr(4)[OF c]
  have "categories s' = categories s1 \<and> map_of (categories s') (row ! 2) = Some c \<and>
          (transactions s' = transactions s \<or>
           (\<exists>d a. transactions s' = (d, row ! 2, c, a) # transactions s))"
    by simp
  with c show "\<exists>c s1. tangerine_category L row s = Inr (c, s1) \<and> categories s' = categories s1 \<and>
          map_of (categories s') (row ! 2) = Some c \<and>
          (transactions s' = transactions s \<or>
           (\<exists>d a. transactions s' = (d, row ! 2, c, a) # transactions s))"
    by blast
next
  assume a: "\<not> interactive s \<and> map_of (categories s) (row ! 4) = None \<and> row ! 6 \<noteq> ''CAD$'' \<and>
        rbc_row L month row s = Inr s'"
  then obtain d c s1 where c: "rbc_category L (row ! 4) s = Inr (c, s1)"
    and s': "s' = (if date_month d = month \<and> (\<exists>a. py_float L (row ! 6) = Some a \<and> a < 0)
                  \<and> list_all (\<lambda>k. \<not> str_in k (row ! 4)) (MONTHLY_COSTS s)
               then s1\<lparr>transactions := transactions s @ [(d, row ! 4, c, the (py_float L (row ! 6)))]\<rparr>
               else s1)"
    by (blast elim: rbc_row_Inr)
  from a c have "categories s1 = categories s @ [(row ! 4, ''Unknown'')]"
    by (auto simp: rbc_category_batch dict_get_def update_absent)
  with s' show "categories s' = categories s @ [(row ! 4, ''Unknown'')]"
    by (simp split: if_splits)
next
  assume a: "\<not> interactive s \<and> map_of (categories s) (row ! 2) = None \<and>
        row ! 0 \<noteq> ''Transaction date'' \<and> tangerine_row L month row s = Inr s'"
  then obtain d c s1 where c: "tangerine_category L row s = Inr (c, s1)"
    and 1: "date_month d = month \<and> row ! 1 = ''DEBIT'' \<Longrightarrow>
           4 < length row \<and> (\<exists>a. py_float L (row ! 4) = Some a \<and>
             s' = s1\<lparr>transactions := (d, row ! 2, c, a) # transactions s\<rparr>)"
    and 2: "\<not> (date_month d = month \<and> row ! 1 = ''DEBIT'') \<Longrightarrow> s' = s1"
    by (blast elim: tangerine_row_Inr)
  from a c have "categories s1 = categories s @ [(row ! 2, ''Unknown'')]"
    by (auto simp: tangerine_category_def dict_get_def update_absent Let_def split: if_splits)
  moreover have "categories s' = categories s1"
  proof (cases "date_month d = month \<and> row ! 1 = ''DEBIT''")
    case True
    from 1[OF True] obtain a where "s' = s1\<lparr>transactions := (d, row ! 2, c, a) # transactions s\<rparr>"
      by blast
    then show ?thesis by simp
  next
    case False
    from 2[OF False] show ?thesis by simp
  qed
  ultimately show "categories s' = categories s @ [(row ! 2, ''Unknown'')]"
    by simp
qed

text \<open>
  The theorem at two rows outside the target month, which are never added to the ledger:
  an interactive Bank A row whose prompt is answered \<open>Food\<close>, and a Bank B row of a run that
  is not interactive.
\<close>

theorem category_recorded_witness:
  "rbc_row py0 3 [''Visa'', ''4510'', ''4/5/2024'', '''', ''Grocer'', '''', ''-7.25'', '''']
       (ExpenseGrabber [] [] True [''Food''])
     = Inr \<lparr>transactions = [], MONTHLY_COSTS = [], categories = [(''Grocer'', ''Food'')],
            interactive = True, console = []\<rparr>
   \<and> rbc_category py0 ''Grocer'' (ExpenseGrabber [] [] True [''Food''])
     = Inr (''Food'', \<lparr>transactions = [], MONTHLY_COSTS = [],
            categories = [(''Grocer'', ''Food'')], interactive = True, console = []\<rparr>)
   \<and> tangerine_row py0 3 [''4/9/2024'', ''DEBIT'', ''Baker'', ''Category: Food'', ''-2.00'']
       (ExpenseGrabber [] [] False [])
     = Inr \<lparr>transactions = [], MONTHLY_COSTS = [], categories = [(''Baker'', ''Unknown'')],
            interactive = False, console = []\<rparr>
   \<and> map_of [(''Grocer'', ''Food'')] ''Grocer'' = Some ''Food''
   \<and> map_of [(''Baker'', ''Unknown'')] ''Baker'' = Some ''Unknown''"
proof -
  let ?a = "[''Visa'', ''4510'', ''4/5/2024'', '''', ''Grocer'', '''', ''-7.25'', '''']"
  let ?sa = "ExpenseGrabber [] [] True [''Food'']"
  let ?b = "[''4/9/2024'', ''DEBIT'', ''Baker'', ''Category: Food'', ''-2.00'']"
  let ?sb = "ExpenseGrabber [] [] False []"
  have 1: "rbc_row py0 3 ?a ?sa
     = Inr \<lparr>transactions = [], MONTHLY_COSTS = [], categories = [(''Grocer'', ''Food'')],
            interactive = True, console = []\<rparr>"
    by (simp add: rbc_row_def rbc_category_def add_category_def get_unique_categories_def
        py_index_def dict_get_def ExpenseGrabber_def py0_simps date_month_def Let_def)
  have 2: "tangerine_row py0 3 ?b ?sb
     = Inr \<lparr>transactions = [], MONTHLY_COSTS = [], categories = [(''Baker'', ''Unknown'')],
            interactive = False, console = []\<rparr>"
    by (simp add: tangerine_row_def tangerine_category_def dict_get_def ExpenseGrabber_def
        py0_simps date_month_def Let_def)
  have 3: "rbc_category py0 ''Grocer'' ?sa
     = Inr (''Food'', \<lparr>transactions = [], MONTHLY_COSTS = [],
            categories = [(''Grocer'', ''Food'')], interactive = True, console = []\<rparr>)"
    by (simp add: rbc_category_def add_category_def get_unique_categories_def
        py_index_def dict_get_def ExpenseGrabber_def py0_simps Let_def)
  have 4: "?a ! 6 \<noteq> ''CAD$'' \<and> ?b ! 0 \<noteq> ''Transaction date''"
    by simp
  from 1 4 category_recorded[where row = ?a and L = py0 and month = 3 and s = ?sa
      and s' = "\<lparr>transactions = [], MONTHLY_COSTS = [], categories = [(''Grocer'', ''Food'')],
            interactive = True, console = []\<rparr>"]
  have 5: "map_of [(''Grocer'', ''Food'')] ''Grocer'' = Some ''Food''"
    by simp
  from 2 4 category_recorded[where row = ?b and L = py0 and month = 3 and s = ?sb
      and s' = "\<lparr>transactions = [], MONTHLY_COSTS = [], categories = [(''Baker'', ''Unknown'')],
            interactive = False, console = []\<rparr>"]
  have 6: "map_of [(''Baker'', ''Unknown'')] ''Baker'' = Some ''Unknown''"
    by simp
  from 1 2 3 5 6 show ?thesis by blast
qed

text \<open>
  C6. When process_transactions returns, the ledger is the ledger that the parsers built,
  sorted by date in ascending order by a stable sort with no other key: it has the same
  transactions, its dates ascend, and the transactions of any one date are in the order in
  which they were before the sort. That order is the order of insertion: the loop of
  parse_rbc appends the selected rows of its file in file order, and the loop of
  parse_tangerine puts the selected rows of its file in front of the ledger in reverse file
  order. A run on valid files, whose console holds a line for each row when the run is
  interactive, does return, with a ledger whose dates ascend, whatever the order of the rows.
\<close>

theorem ledger_sorted_stable:
  "(process_transactions L fs banks files date s = Inr s' \<longrightarrow>
      (\<exists>s1. parse_banks L fs banks files 0 (date_month date) s = Inr s1 \<and>
         sorted (map t_date (transactions s')) \<and>
         mset (transactions s') = mset (transactions s1) \<and>
         (\<forall>d. filter (\<lambda>t. t_date t = d) (transactions s')
              = filter (\<lambda>t. t_date t = d) (transactions s1))))
   \<and> (parse_rbc_rows L month rows s = Inr s' \<longrightarrow>
      (\<exists>new. transactions s' = transactions s @ new \<and>
         map t_core new = List.map_filter (rbc_selected L (MONTHLY_COSTS s) month) rows))
   \<and> (parse_tangerine_rows L month rows s = Inr s' \<longrightarrow>
      (\<exists>new. transactions s' = rev new @ transactions s \<and>
         map t_core new = List.map_filter (tangerine_selected L month) rows))
   \<and> (files_valid L fs banks files 0 \<and>
        (interactive s \<longrightarrow> rows_count fs banks files 0 \<le> length (console s)) \<longrightarrow>
      (\<exists>s2. process_transactions L fs banks files date s = Inr s2 \<and>
         sorted (map t_date (transactions s2))))"
proof (intro conjI impI)
  assume "process_transactions L fs banks files date s = Inr s'"
  then obtain s1 where p: "parse_banks L fs banks files 0 (date_month date) s = Inr s1"
    and s': "s' = s1\<lparr>transactions := sort_key t_date (transactions s1)\<rparr>"
    by (blast elim: process_transactions_Inr)
  from s' have "sorted (map t_date (transactions s'))"
    by (simp add: sorted_sort_key)
  moreover from s' have "mset (transactions s') = mset (transactions s1)"
    by simp
  moreover from s' have "\<forall>d. filter (\<lambda>t. t_date t = d) (transactions s')
              = filter (\<lambda>t. t_date t = d) (transactions s1)"
    by (simp add: sort_key_stable)
  ultimately show "\<exists>s1. parse_banks L fs banks files 0 (date_month date) s = Inr s1 \<and>
         sorted (map t_date (transactions s')) \<and>
         mset (transactions s') = mset (transactions s1) \<and>
         (\<forall>d. filter (\<lambda>t. t_date t = d) (transactions s')
              = filter (\<lambda>t. t_date t = d) (transactions s1))"
    using p by blast
next
  assume "parse_rbc_rows L month rows s = Inr s'"
  from parse_rbc_rows_ledger[OF this]
  show "\<exists>new. transactions s' = transactions s @ new \<and>
         map t_core new = List.map_filter (rbc_selected L (MONTHLY_COSTS s) month) rows"
    by blast
next
  assume "parse_tangerine_rows L month rows s = Inr s'"
  from parse_tangerine_rows_ledger[OF this]
  show "\<exists>new. transactions s' = rev new @ transactions s \<and>
         map t_core new = List.map_filter (tangerine_selected L month) rows"
    by blast
next
  assume a: "files_valid L fs banks files 0 \<and>
        (interactive s \<longrightarrow> rows_count fs banks files 0 \<le> length (console s))"
  then have v: "files_valid L fs banks files 0"
    and c: "interactive s \<longrightarrow> rows_count fs banks files 0 \<le> length (console s)"
    by simp_all
  from parse_banks_returns[OF v c, of "date_month date"] obtain s1
    where "parse_banks L fs banks files 0 (date_month date) s = Inr s1"
    by blast
  then show "\<exists>s2. process_transactions L fs banks files date s = Inr s2 \<and>
         sorted (map t_date (transactions s2))"
    by (simp add: process_transactions_def sorted_sort_key)
qed

text \<open>
  The theorem at the example run. Before the sort the ledger holds the two rows of Bank B in
  reverse file order, then the three rows of Bank A in file order; after it the dates ascend,
  and the transactions of March 5 and those of March 9 are in the order they had before.
\<close>

theorem ledger_sorted_stable_witness:
  "process_transactions py0 example_files [''rbc'', ''tangerine'']
        [''rbc.csv'', ''tangerine.csv''] (2024, 3, 1) (ExpenseGrabber [''RENT''] [] False [])
     = Inr example_result
   \<and> parse_banks py0 example_files [''rbc'', ''tangerine''] [''rbc.csv'', ''tangerine.csv'']
        0 3 (ExpenseGrabber [''RENT''] [] False [])
     = Inr (example_result\<lparr>transactions := example_ledger\<rparr>)
   \<and> sorted (map t_date (transactions example_result))
   \<and> map t_description (filter (\<lambda>t. t_date t = (2024, 3, 5)) example_ledger)
     = [''Bookshop'', ''Grocer'']
   \<and> map t_description (filter (\<lambda>t. t_date t = (2024, 3, 5)) (transactions example_result))
     = [''Bookshop'', ''Grocer'']
   \<and> map t_description (filter (\<lambda>t. t_date t = (2024, 3, 9)) example_ledger)
     = [''Anna'', ''Coffee Shop'', ''Baker'']
   \<and> map t_description (filter (\<lambda>t. t_date t = (2024, 3, 9)) (transactions example_result))
     = [''Anna'', ''Coffee Shop'', ''Baker'']
   \<and> map t_description example_ledger
     = [''Bookshop'', ''Anna'', ''Coffee Shop'', ''Grocer'', ''Baker'']
   \<and> List.map_filter (rbc_selected py0 [''RENT''] 3) example_rbc_rows
     = [((2024, 3, 9), ''Coffee Shop'', - 4.5), ((2024, 3, 5), ''Grocer'', - 30.25),
        ((2024, 3, 9), ''Baker'', - 2)]
   \<and> List.map_filter (tangerine_selected py0 3) example_tangerine_rows
     = [((2024, 3, 9), ''Anna'', - 20), ((2024, 3, 5), ''Bookshop'', - 15)]
   \<and> files_valid py0 example_files [''rbc'', ''tangerine''] [''rbc.csv'', ''tangerine.csv''] 0"
proof -
  let ?s = "ExpenseGrabber [''RENT''] [] False []"
  have 1: "parse_banks py0 example_files [''rbc'', ''tangerine''] [''rbc.csv'', ''tangerine.csv'']
      0 3 ?s = Inr (example_result\<lparr>transactions := example_ledger\<rparr>)"
    by (simp add: parse_rbc_def parse_tangerine_def example_files_def example_rbc_rows_def
      example_tangerine_rows_def rbc_row_def rbc_category_def tangerine_row_def
      tangerine_category_def dict_get_def ExpenseGrabber_def py0_simps date_month_def Let_def
      example_result_def example_ledger_def example_categories_def)
  have 2: "sort_key t_date example_ledger = transactions example_result"
    by (simp add: example_ledger_def example_result_def t_date_def)
  have 3: "process_transactions py0 example_files [''rbc'', ''tangerine'']
        [''rbc.csv'', ''tangerine.csv''] (2024, 3, 1) ?s = Inr example_result"
    using 1 2 by (simp add: process_transactions_def date_month_def example_result_def)
  have dm: "date_month (2024, 3, 1) = 3"
    by (simp add: date_month_def)
  from 1 3 dm ledger_sorted_stable[where L = py0 and s = ?s and s' = example_result
      and date = "(2024, 3, 1)" and fs = example_files and banks = "[''rbc'', ''tangerine'']"
      and files = "[''rbc.csv'', ''tangerine.csv'']"]
  have 4: "sorted (map t_date (transactions example_result))
      \<and> filter (\<lambda>t. t_date t = (2024, 3, 5)) (transactions example_result)
        = filter (\<lambda>t. t_date t = (2024, 3, 5)) example_ledger
      \<and> filter (\<lambda>t. t_date t = (2024, 3, 9)) (transactions example_result)
        = filter (\<lambda>t. t_date t = (2024, 3, 9)) example_ledger"
    by simp
  have 5: "map t_description (filter (\<lambda>t. t_date t = (2024, 3, 5)) example_ledger)
     = [''Bookshop'', ''Grocer'']"
    by (simp add: example_ledger_def t_date_def t_description_def)
  have 6: "map t_description (filter (\<lambda>t. t_date t = (2024, 3, 9)) example_ledger)
     = [''Anna'', ''Coffee Shop'', ''Baker'']"
    by (simp add: example_ledger_def t_date_def t_description_def)
  have 7: "map t_description example_ledger
     = [''Bookshop'', ''Anna'', ''Coffee Shop'', ''Grocer'', ''Baker'']"
    by (simp add: example_ledger_def t_description_def)
  have 8: "List.map_filter (rbc_selected py0 [''RENT''] 3) example_rbc_rows
     = [((2024, 3, 9), ''Coffee Shop'', - 4.5), ((2024, 3, 5), ''Grocer'', - 30.25),
        ((2024, 3, 9), ''Baker'', - 2)]"
    by (simp add: List.map_filter_def rbc_selected_def example_rbc_rows_def py0_simps
        date_month_def)
  have 9: "List.map_filter (tangerine_selected py0 3) example_tangerine_rows
     = [((2024, 3, 9), ''Anna'', - 20), ((2024, 3, 5), ''Bookshop'', - 15)]"
    by (simp add: List.map_filter_def tangerine_selected_def example_tangerine_rows_def
        py0_simps date_month_def)
  have 10: "files_valid py0 example_files [''rbc'', ''tangerine'']
      [''rbc.csv'', ''tangerine.csv''] 0"
    by (simp add: example_files_def example_rbc_rows_def example_tangerine_rows_def
        rbc_row_valid_def tangerine_row_valid_def py0_simps)
  from 1 3 4 5 6 7 8 9 10 show ?thesis by simp
qed

text \<open>
  C7, as the code has it. \<open>total_spent\<close> adds the amounts to a total that starts at zero, in
  the order of the ledger and with the addition of doubles, and returns the absolute value
  of that total. On an empty ledger it returns zero. When every addition of the loop is exact
  it returns the absolute value of the sum of the amounts. An addition that rounds makes the
  result differ from that value, and the result then depends on the order of the ledger.
\<close>

theorem total_spent_float_total:
  "total_spent L (s\<lparr>transactions := []\<rparr>) = Some 0
   \<and> total_spent L s
       = map_option abs (foldl (float_add_total L) (Some 0) (map t_amount (transactions s)))
   \<and> (adds_exact L 0 (map t_amount (transactions s)) \<longrightarrow>
        total_spent L s = Some \<bar>sum_list (map t_amount (transactions s))\<bar>)"
proof (intro conjI impI)
  show "total_spent L (s\<lparr>transactions := []\<rparr>) = Some 0"
    by (simp add: total_spent_def)
  show eq: "total_spent L s
      = map_option abs (foldl (float_add_total L) (Some 0) (map t_amount (transactions s)))"
    by (simp add: total_spent_def foldl_amounts)
  assume "adds_exact L 0 (map t_amount (transactions s))"
  from foldl_adds_exact[OF this] eq
  show "total_spent L s = Some \<bar>sum_list (map t_amount (transactions s))\<bar>"
    by simp
qed

text \<open>
  The theorem at a ledger with the amounts \<open>-4.5\<close> and \<open>-2\<close>: both additions are exact and
  the total is \<open>6.5\<close>.
\<close>

theorem total_spent_float_total_witness:
  "adds_exact py0 0 [- 4.5, - 2]
   \<and> total_spent py0
        \<lparr>transactions = [((2024, 3, 9), ''Coffee Shop'', ''Food'', - 4.5),
                         ((2024, 3, 9), ''Baker'', ''Food'', - 2)],
         MONTHLY_COSTS = [], categories = [], interactive = False, console = []\<rparr>
      = Some 6.5"
proof -
  let ?s = "\<lparr>transactions = [((2024, 3, 9), ''Coffee Shop'', ''Food'', - 4.5),
                         ((2024, 3, 9), ''Baker'', ''Food'', - 2)],
         MONTHLY_COSTS = [], categories = [], interactive = False, console = []\<rparr>"
  have 1: "adds_exact py0 0 [- 4.5, - 2]"
    by code_simp
  have 2: "map t_amount (transactions ?s) = [- 4.5, - 2]"
    by (simp add: t_amount_def)
  from 1 2 have 3: "adds_exact py0 0 (map t_amount (transactions ?s))"
    by (simp only:)
  from total_spent_float_total[where L = py0 and s = ?s] 3
  have "total_spent py0 ?s = Some \<bar>sum_list (map t_amount (transactions ?s))\<bar>"
    by blast
  then have 4: "total_spent py0 ?s = Some 6.5"
    by (simp add: t_amount_def)
  from 1 4 show ?thesis
    by (simp only: simp_thms)
qed

text \<open>
  C7 as the specification states it fails at the ledger with the amounts \<open>-10^16\<close>, \<open>-1\<close>
  and \<open>-1\<close>: each addition of \<open>-1\<close> is rounded back to \<open>-10^16\<close>, so the function returns
  \<open>10^16\<close>, and the absolute value of the sum of the amounts is \<open>10^16 + 2\<close>.
\<close>

theorem total_spent_rounds:
  "total_spent py0
     \<lparr>transactions = [((2024, 3, 1), ''House'', ''Housing'', - 10000000000000000),
                      ((2024, 3, 2), ''Pen'', ''Office'', - 1),
                      ((2024, 3, 3), ''Pencil'', ''Office'', - 1)],
      MONTHLY_COSTS = [], categories = [], interactive = False, console = []\<rparr>
     = Some 10000000000000000
   \<and> \<bar>sum_list (map t_amount
        [((2024, 3, 1), ''House'', ''Housing'', - 10000000000000000),
         ((2024, 3, 2), ''Pen'', ''Office'', - 1),
         ((2024, 3, 3), ''Pencil'', ''Office'', - 1)])\<bar> = 10000000000000002"
proof -
  have 1: "double_add 0 (- 10000000000000000) = Some (- 10000000000000000)"
    by code_simp
  have 2: "double_add (- 10000000000000000) (- 1) = Some (- 10000000000000000)"
    by code_simp
  from 1 2 show ?thesis
    by (simp add: total_spent_def float_add_total_def t_amount_def py0_def)
qed

text \<open>
  C8, as the code has it. Let \<open>n\<close> be the number of categories that the prompt displays.
  When \<open>int\<close> rejects the line that the operator types, or returns an integer below \<open>-n\<close>
  or above \<open>n - 1\<close>, add_category records the line itself as the category of the
  description. An integer from \<open>0\<close> to \<open>n - 1\<close> selects the displayed category of that
  index, and an integer from \<open>-n\<close> to \<open>-1\<close> selects a displayed category counted from
  the end of the list.
\<close>

theorem add_category_literal_or_index:
  "(console s = line # rest \<and>
      (py_int L line = None \<or>
       (\<exists>i. py_int L line = Some i \<and>
            (i < - int (length (get_unique_categories L s)) \<or>
             int (length (get_unique_categories L s)) \<le> i)))
      \<longrightarrow> add_category L description s =
            Inr (s\<lparr>console := rest,
                  categories := AList.update description line (categories s)\<rparr>))
   \<and> (console s = line # rest \<and> py_int L line = Some i \<and> 0 \<le> i \<and>
        i < int (length (get_unique_categories L s))
      \<longrightarrow> add_category L description s =
            Inr (s\<lparr>console := rest,
                  categories := AList.update description
                    (get_unique_categories L s ! nat i) (categories s)\<rparr>))
   \<and> (console s = line # rest \<and> py_int L line = Some i \<and>
        - int (length (get_unique_categories L s)) \<le> i \<and> i < 0
      \<longrightarrow> add_category L description s =
            Inr (s\<lparr>console := rest,
                  categories := AList.update description
                    (get_unique_categories L s ! nat (int (length (get_unique_categories L s)) + i))
                    (categories s)\<rparr>))"
  by (auto simp: add_category_def py_index_def Let_def)

text \<open>
  The theorem at a prompt that displays the one category \<open>0: Food\<close>: the answers
  \<open>Bakery\<close> and \<open>1\<close> are recorded as they are, the answer \<open>0\<close> selects \<open>Food\<close>,
  and so does the answer \<open>-1\<close>.
\<close>

theorem add_category_literal_or_index_witness:
  "get_unique_categories py0 (ExpenseGrabber [] [(''Grocer'', ''Food'')] True [''Bakery'']) = [''Food'']
   \<and> py_int py0 ''Bakery'' = None
   \<and> add_category py0 ''Baker'' (ExpenseGrabber [] [(''Grocer'', ''Food'')] True [''Bakery''])
     = Inr (ExpenseGrabber [] [(''Grocer'', ''Food''), (''Baker'', ''Bakery'')] True [])
   \<and> py_int py0 ''1'' = Some 1
   \<and> add_category py0 ''Baker'' (ExpenseGrabber [] [(''Grocer'', ''Food'')] True [''1''])
     = Inr (ExpenseGrabber [] [(''Grocer'', ''Food''), (''Baker'', ''1'')] True [])
   \<and> py_int py0 ''0'' = Some 0
   \<and> add_category py0 ''Baker'' (ExpenseGrabber [] [(''Grocer'', ''Food'')] True [''0''])
     = Inr (ExpenseGrabber [] [(''Grocer'', ''Food''), (''Baker'', ''Food'')] True [])
   \<and> py_int py0 ''-1'' = Some (- 1)
   \<and> add_category py0 ''Baker'' (ExpenseGrabber [] [(''Grocer'', ''Food'')] True [''-1''])
     = Inr (ExpenseGrabber [] [(''Grocer'', ''Food''), (''Baker'', ''Food'')] True [])"
proof -
  let ?c = "[(''Grocer'', ''Food'')]"
  have u: "\<And>inp. get_unique_categories py0 (ExpenseGrabber [] ?c True inp) = [''Food'']"
    by (simp add: get_unique_categories_def ExpenseGrabber_def py0_def)
  have c: "\<And>inp. console (ExpenseGrabber [] ?c True [inp]) = inp # []"
    by (simp add: ExpenseGrabber_def)
  have i1: "py_int py0 ''Bakery'' = None" by (simp add: py0_simps)
  have i2: "py_int py0 ''1'' = Some 1" by (simp add: py0_simps)
  have i3: "py_int py0 ''0'' = Some 0" by (simp add: py0_simps)
  have i4: "py_int py0 ''-1'' = Some (- 1)" by (simp add: py0_simps)
  have 1: "add_category py0 ''Baker'' (ExpenseGrabber [] ?c True [''Bakery''])
     = Inr (ExpenseGrabber [] [(''Grocer'', ''Food''), (''Baker'', ''Bakery'')] True [])"
    using add_category_literal_or_index[where s = "ExpenseGrabber [] ?c True [''Bakery'']"
        and line = "''Bakery''" and rest = "[]" and L = py0 and description = "''Baker''" and i = 0]
      c i1
    by (simp add: ExpenseGrabber_def)
  have 2: "add_category py0 ''Baker'' (ExpenseGrabber [] ?c True [''1''])
     = Inr (ExpenseGrabber [] [(''Grocer'', ''Food''), (''Baker'', ''1'')] True [])"
    using add_category_literal_or_index[where s = "ExpenseGrabber [] ?c True [''1'']"
        and line = "''1''" and rest = "[]" and L = py0 and description = "''Baker''" and i = 1]
      c i2 u
    by (simp add: ExpenseGrabber_def)
  have 3: "add_category py0 ''Baker'' (ExpenseGrabber [] ?c True [''0''])
     = Inr (ExpenseGrabber [] [(''Grocer'', ''Food''), (''Baker'', ''Food'')] True [])"
    using add_category_literal_or_index[where s = "ExpenseGrabber [] ?c True [''0'']"
        and line = "''0''" and rest = "[]" and L = py0 and description = "''Baker''" and i = 0]
      c i3 u
    by (simp add: ExpenseGrabber_def)
  have 4: "add_category py0 ''Baker'' (ExpenseGrabber [] ?c True [''-1''])
     = Inr (ExpenseGrabber [] [(''Grocer'', ''Food''), (''Baker'', ''Food'')] True [])"
    using add_category_literal_or_index[where s = "ExpenseGrabber [] ?c True [''-1'']"
        and line = "''-1''" and rest = "[]" and L = py0 and description = "''Baker''" and i = "- 1"]
      c i4 u
    by (simp add: ExpenseGrabber_def)
  from u i1 i2 i3 i4 1 2 3 4 show ?thesis by blast
qed

text \<open>
  C8 as it is written fails. The prompt displays the list \<open>0: Food\<close>, so \<open>-1\<close> is not an
  index that it displays; the operator types \<open>-1\<close>, and add_category records \<open>Food\<close>,
  the last displayed category, for the description \<open>Baker\<close>, not the text \<open>-1\<close>.
\<close>

theorem negative_index_selects_category:
  "get_unique_categories py0 (ExpenseGrabber [] [(''Grocer'', ''Food'')] True [''-1'']) = [''Food'']
   \<and> add_category py0 ''Baker'' (ExpenseGrabber [] [(''Grocer'', ''Food'')] True [''-1''])
     = Inr (ExpenseGrabber [] [(''Grocer'', ''Food''), (''Baker'', ''Food'')] True [])
   \<and> add_category py0 ''Baker'' (ExpenseGrabber [] [(''Grocer'', ''Food'')] True [''-1''])
     \<noteq> Inr (ExpenseGrabber [] [(''Grocer'', ''Food''), (''Baker'', ''-1'')] True [])"
  by (simp add: add_category_def get_unique_categories_def py_index_def ExpenseGrabber_def
      py0_simps Let_def)

text \<open>
  C9. For every dict of categories, get_categories after save_categories returns the same
  dict: the same descriptions with the same categories, in the same order. A Python dict has
  each key once, which is the hypothesis on the association list; every dict that the
  program holds satisfies it, since get_categories returns such a dict and
  process_transactions keeps the keys distinct.
\<close>

theorem save_then_get_categories:
  "(distinct (map fst cats) \<longrightarrow> get_categories (save_categories cats tfs) = Inr cats)
   \<and> (get_categories tfs = Inr d \<longrightarrow> distinct (map fst d))
   \<and> (distinct (map fst (categories s)) \<and>
        process_transactions L fs banks files date s = Inr s'
      \<longrightarrow> distinct (map fst (categories s')))"
proof (intro conjI impI)
  assume "distinct (map fst cats)"
  then show "get_categories (save_categories cats tfs) = Inr cats"
    by (simp add: get_categories_def save_categories_def json_loads_dumps
        dict_of_pairs_distinct)
next
  assume "get_categories tfs = Inr d"
  then show "distinct (map fst d)"
    by (rule get_categories_keys)
next
  assume a: "distinct (map fst (categories s)) \<and>
        process_transactions L fs banks files date s = Inr s'"
  then obtain s1 where p: "parse_banks L fs banks files 0 (date_month date) s = Inr s1"
    and s': "s' = s1\<lparr>transactions := sort_key t_date (transactions s1)\<rparr>"
    by (blast elim: process_transactions_Inr)
  from parse_banks_keys[OF p] a s' show "distinct (map fst (categories s'))"
    by simp
qed

text \<open>
  The theorem at the dict of the example run and at a description with a double quote, a
  backslash, a line feed and a character above the tilde: the text that is saved, and the
  dict that is read back from it.
\<close>

theorem save_then_get_categories_witness:
  "distinct (map fst example_categories)
   \<and> get_categories (save_categories example_categories (\<lambda>f. None)) = Inr example_categories
   \<and> json_dumps [(''Grocer'', ''Food'')]
     = [CHR ''{'', CHR 0x22, CHR ''G'', CHR ''r'', CHR ''o'', CHR ''c'', CHR ''e'', CHR ''r'',
        CHR 0x22, CHR '':'', CHR '' '', CHR 0x22, CHR ''F'', CHR ''o'', CHR ''o'', CHR ''d'',
        CHR 0x22, CHR ''}'']
   \<and> get_categories (save_categories [([CHR 0x22, CHR 0x5C, CHR 0x0A, CHR 0xE9], ''Odd'')]
        (\<lambda>f. None))
     = Inr [([CHR 0x22, CHR 0x5C, CHR 0x0A, CHR 0xE9], ''Odd'')]
   \<and> get_categories (\<lambda>f. None) = Inr []
   \<and> distinct (map fst (categories example_result))"
proof -
  have 1: "distinct (map fst example_categories)"
    by (simp add: example_categories_def)
  have 2: "distinct (map fst [([CHR 0x22, CHR 0x5C, CHR 0x0A, CHR 0xE9], ''Odd'')])"
    by simp
  have 3: "json_dumps [(''Grocer'', ''Food'')]
     = [CHR ''{'', CHR 0x22, CHR ''G'', CHR ''r'', CHR ''o'', CHR ''c'', CHR ''e'', CHR ''r'',
        CHR 0x22, CHR '':'', CHR '' '', CHR 0x22, CHR ''F'', CHR ''o'', CHR ''o'', CHR ''d'',
        CHR 0x22, CHR ''}'']"
    by (simp add: json_dumps_def encode_basestring_ascii_def json_escape_def)
  have 4: "get_categories (\<lambda>f. None) = Inr []"
    by (simp add: get_categories_def)
  have 5: "distinct (map fst (categories example_result))"
    by (simp add: example_result_def example_categories_def)
  note thm1 = save_then_get_categories[where cats = example_categories
      and tfs = "\<lambda>f. None" and d = "[]" and s = example_result and s' = example_result
      and L = py0 and fs = example_files and banks = "[]" and files = "[]"
      and date = "(2024, 3, 1)"]
  note thm2 = save_then_get_categories[
      where cats = "[([CHR 0x22, CHR 0x5C, CHR 0x0A, CHR 0xE9], ''Odd'')]"
      and tfs = "\<lambda>f. None" and d = "[]" and s = example_result and s' = example_result
      and L = py0 and fs = example_files and banks = "[]" and files = "[]"
      and date = "(2024, 3, 1)"]
  from 1 thm1
  have 6: "get_categories (save_categories example_categories (\<lambda>f. None))
      = Inr example_categories"
    by blast
  from 2 thm2
  have 7: "get_categories (save_categories [([CHR 0x22, CHR 0x5C, CHR 0x0A, CHR 0xE9], ''Odd'')]
        (\<lambda>f. None))
     = Inr [([CHR 0x22, CHR 0x5C, CHR 0x0A, CHR 0xE9], ''Odd'')]"
    by blast
  from 1 3 4 5 6 7 show ?thesis by blast
qed

text \<open>
  C10. The script constructs the ExpenseGrabber with the empty list of monthly costs, and no
  parser changes that list. With the empty list the test of line 44 holds for every
  description. So the ledger of a run of the script that returns is, up to the category of
  each transaction, the sorted list \<open>cli_selected\<close>, which is built with no test on any
  description: every Bank A row of a file that the run reads that is not the marker row, is
  in the target month and has a negative amount has its transaction in the ledger, whatever
  the files hold. Row by row, a Bank A row is added to the ledger exactly when it passes
  these three tests: no row is left out for its description.
\<close>

theorem cli_excludes_no_row:
  "MONTHLY_COSTS (ExpenseGrabber [] cats True inp) = []
   \<and> list_all (\<lambda>k. \<not> str_in k description) (MONTHLY_COSTS (ExpenseGrabber [] cats True inp))
   \<and> (main L fs tfs file_arg date_arg bank_arg inp = Inr (g, tfs') \<longrightarrow>
        MONTHLY_COSTS g = [] \<and>
        (\<exists>cs date. get_categories tfs = Inr cs \<and>
            py_strptime L date_arg ''%m/%y'' = Some date \<and>
            process_transactions L fs (split_chr CHR '','' bank_arg)
              (split_chr CHR '','' file_arg) date (ExpenseGrabber [] cs True inp) = Inr g \<and>
            map t_core (transactions g)
              = sort_key fst (cli_selected L fs (split_chr CHR '','' bank_arg)
                  (split_chr CHR '','' file_arg) 0 (date_month date) [])))
   \<and> (main L fs tfs file_arg date_arg bank_arg inp = Inr (g, tfs') \<and>
      py_strptime L date_arg ''%m/%y'' = Some date \<and>
      k < length (split_chr CHR '','' bank_arg) \<and>
      split_chr CHR '','' bank_arg ! k = ''rbc'' \<and>
      fs (split_chr CHR '','' file_arg ! k) = Some rows \<and> row \<in> set rows \<and>
      rbc_month_and_sign L (date_month date) row \<longrightarrow>
        (\<exists>t \<in> set (transactions g). t_description t = row ! 4 \<and>
            py_strptime L (row ! 2) ''%m/%d/%Y'' = Some (t_date t) \<and>
            py_float L (row ! 6) = Some (t_amount t)))
   \<and> (MONTHLY_COSTS s = [] \<and> parse_banks L fs banks files i month s = Inr s' \<longrightarrow>
        MONTHLY_COSTS s' = [] \<and>
        map t_core (transactions s')
          = cli_selected L fs banks files i month (map t_core (transactions s)))
   \<and> (MONTHLY_COSTS s = [] \<and> tangerine_row L month row s = Inr s' \<longrightarrow>
        MONTHLY_COSTS s' = [])
   \<and> (MONTHLY_COSTS s = [] \<and> rbc_row L month row s = Inr s' \<longrightarrow>
        MONTHLY_COSTS s' = [] \<and>
        (if rbc_month_and_sign L month row
         then \<exists>t. transactions s' = transactions s @ [t] \<and> t_description t = row ! 4
         else transactions s' = transactions s))"
proof (intro conjI impI)
  show "MONTHLY_COSTS (ExpenseGrabber [] cats True inp) = []"
    by (simp add: ExpenseGrabber_def)
  then show "list_all (\<lambda>k. \<not> str_in k description)
      (MONTHLY_COSTS (ExpenseGrabber [] cats True inp))"
    by simp
next
  assume m: "main L fs tfs file_arg date_arg bank_arg inp = Inr (g, tfs')"
  then obtain date cs where d: "py_strptime L date_arg ''%m/%y'' = Some date"
    and c: "get_categories tfs = Inr cs"
    and p: "process_transactions L fs (split_chr CHR '','' bank_arg)
              (split_chr CHR '','' file_arg) date (ExpenseGrabber [] cs True inp) = Inr g"
    by (auto simp: main_def Let_def split: option.splits sum.splits)
  from p obtain s1 where b: "parse_banks L fs (split_chr CHR '','' bank_arg)
        (split_chr CHR '','' file_arg) 0 (date_month date) (ExpenseGrabber [] cs True inp) = Inr s1"
    and g: "g = s1\<lparr>transactions := sort_key t_date (transactions s1)\<rparr>"
    by (blast elim: process_transactions_Inr)
  from parse_banks_ledger[OF b] g show "MONTHLY_COSTS g = []"
    by (simp add: ExpenseGrabber_def)
  from process_transactions_cores[OF p]
  have "map t_core (transactions g)
      = sort_key fst (cli_selected L fs (split_chr CHR '','' bank_arg)
          (split_chr CHR '','' file_arg) 0 (date_month date) [])"
    by (simp add: ExpenseGrabber_def)
  with d c p show "\<exists>cs date. get_categories tfs = Inr cs \<and>
            py_strptime L date_arg ''%m/%y'' = Some date \<and>
            process_transactions L fs (split_chr CHR '','' bank_arg)
              (split_chr CHR '','' file_arg) date (ExpenseGrabber [] cs True inp) = Inr g \<and>
            map t_core (transactions g)
              = sort_key fst (cli_selected L fs (split_chr CHR '','' bank_arg)
                  (split_chr CHR '','' file_arg) 0 (date_month date) [])"
    by blast
next
  assume a: "main L fs tfs file_arg date_arg bank_arg inp = Inr (g, tfs') \<and>
      py_strptime L date_arg ''%m/%y'' = Some date \<and>
      k < length (split_chr CHR '','' bank_arg) \<and>
      split_chr CHR '','' bank_arg ! k = ''rbc'' \<and>
      fs (split_chr CHR '','' file_arg ! k) = Some rows \<and> row \<in> set rows \<and>
      rbc_month_and_sign L (date_month date) row"
  then obtain cs where p: "process_transactions L fs (split_chr CHR '','' bank_arg)
              (split_chr CHR '','' file_arg) date (ExpenseGrabber [] cs True inp) = Inr g"
    by (auto simp: main_def Let_def split: option.splits sum.splits)
  from process_transactions_cores[OF p]
  have cores: "map t_core (transactions g)
      = sort_key fst (cli_selected L fs (split_chr CHR '','' bank_arg)
          (split_chr CHR '','' file_arg) 0 (date_month date) [])"
    by (simp add: ExpenseGrabber_def)
  from a rbc_selected_any_Some[of L "date_month date" row] obtain d x
    where dx: "py_strptime L (row ! 2) ''%m/%d/%Y'' = Some d" "py_float L (row ! 6) = Some x"
      "rbc_selected_any L (date_month date) row = Some (d, row ! 4, x)"
    by blast
  from a have "k < length (split_chr CHR '','' bank_arg)"
    "split_chr CHR '','' bank_arg ! k = ''rbc''"
    "fs (split_chr CHR '','' file_arg ! (0 + k)) = Some rows" "row \<in> set rows"
    by simp_all
  from cli_selected_rbc_row[of k "split_chr CHR '','' bank_arg" fs "split_chr CHR '','' file_arg"
      0 rows row L "date_month date" "(d, row ! 4, x)" "[]", OF this dx(3)]
  have "(d, row ! 4, x) \<in> set (cli_selected L fs (split_chr CHR '','' bank_arg)
          (split_chr CHR '','' file_arg) 0 (date_month date) [])" .
  then have "(d, row ! 4, x) \<in> set (map t_core (transactions g))"
    by (simp only: cores set_sort)
  then obtain t where t: "t \<in> set (transactions g)" "t_core t = (d, row ! 4, x)"
    by auto
  from t(2) have "t_description t = row ! 4" "t_date t = d" "t_amount t = x"
    by (simp_all add: t_core_def)
  with t(1) dx(1,2)
  show "\<exists>t \<in> set (transactions g). t_description t = row ! 4 \<and>
            py_strptime L (row ! 2) ''%m/%d/%Y'' = Some (t_date t) \<and>
            py_float L (row ! 6) = Some (t_amount t)"
    by blast
next
  assume a: "MONTHLY_COSTS s = [] \<and> parse_banks L fs banks files i month s = Inr s'"
  with parse_banks_ledger[of L fs banks files i month s s'] show "MONTHLY_COSTS s' = []"
    by simp
  from a parse_banks_cores[of L fs banks files i month s s']
  show "map t_core (transactions s')
      = cli_selected L fs banks files i month (map t_core (transactions s))"
    by simp
next
  assume "MONTHLY_COSTS s = [] \<and> tangerine_row L month row s = Inr s'"
  with tangerine_row_frame[of L month row s s'] show "MONTHLY_COSTS s' = []"
    by simp
next
  assume a: "MONTHLY_COSTS s = [] \<and> rbc_row L month row s = Inr s'"
  with rbc_row_frame[of L month row s s'] show "MONTHLY_COSTS s' = []"
    by simp
  from a rbc_row_step(3)[of L month row s s'] obtain new
    where n: "transactions s' = transactions s @ new"
      and c: "map t_core new = List.map_filter (rbc_selected L [] month) [row]"
    by auto
  have sel: "rbc_selected L [] month row
      = (if rbc_month_and_sign L month row
         then Some (the (py_strptime L (row ! 2) ''%m/%d/%Y''), row ! 4, the (py_float L (row ! 6)))
         else None)"
    by (auto simp: rbc_selected_def rbc_month_and_sign_def split: option.splits)
  show "if rbc_month_and_sign L month row
         then \<exists>t. transactions s' = transactions s @ [t] \<and> t_description t = row ! 4
         else transactions s' = transactions s"
  proof (cases "rbc_month_and_sign L month row")
    case True
    with sel have "List.map_filter (rbc_selected L [] month) [row]
        = [(the (py_strptime L (row ! 2) ''%m/%d/%Y''), row ! 4, the (py_float L (row ! 6)))]"
      by (cases "the (py_strptime L (row ! 2) ''%m/%d/%Y'')") (simp add: List.map_filter_def)
    with c have "map t_core new
        = [(the (py_strptime L (row ! 2) ''%m/%d/%Y''), row ! 4, the (py_float L (row ! 6)))]"
      by simp
    then obtain t where t: "new = [t]" "t_core t
        = (the (py_strptime L (row ! 2) ''%m/%d/%Y''), row ! 4, the (py_float L (row ! 6)))"
      by (cases new) simp_all
    from t(2) have "t_description t = row ! 4"
      by (simp add: t_core_def)
    with n t(1) have "\<exists>t. transactions s' = transactions s @ [t] \<and> t_description t = row ! 4"
      by blast
    with True show ?thesis
      by (simp only: if_True)
  next
    case False
    with c sel have "new = []"
      by (simp add: List.map_filter_def)
    with n False show ?thesis by simp
  qed
qed

text \<open>
  The theorem at a run of the script on a Bank A file with a payment of rent in March:
  the operator answers the prompt with \<open>Housing\<close>, the payment is in the ledger, and the
  dict is saved. The row of the payment passes the three tests, and the ledger holds the
  transaction that the theorem says it holds.
\<close>

theorem cli_excludes_no_row_witness:
  "main py0 example_rent_files (\<lambda>f. None) ''rbc.csv'' ''03/24'' ''rbc'' [''Housing'']
     = Inr (\<lparr>transactions = [((2024, 3, 1), ''RENT PAYMENT'', ''Housing'', - 1200)],
             MONTHLY_COSTS = [], categories = [(''RENT PAYMENT'', ''Housing'')],
             interactive = True, console = []\<rparr>,
            save_categories [(''RENT PAYMENT'', ''Housing'')] (\<lambda>f. None))
   \<and> rbc_month_and_sign py0 3
        [''Chequing'', ''1001'', ''3/1/2024'', '''', ''RENT PAYMENT'', '''', ''-1200.00'', '''']
   \<and> rbc_row py0 3
        [''Chequing'', ''1001'', ''3/1/2024'', '''', ''RENT PAYMENT'', '''', ''-1200.00'', '''']
        (ExpenseGrabber [] [] True [''Housing''])
     = Inr \<lparr>transactions = [((2024, 3, 1), ''RENT PAYMENT'', ''Housing'', - 1200)],
            MONTHLY_COSTS = [], categories = [(''RENT PAYMENT'', ''Housing'')],
            interactive = True, console = []\<rparr>
   \<and> MONTHLY_COSTS (ExpenseGrabber [] [] True [''Housing'']) = []
   \<and> cli_selected py0 example_rent_files [''rbc''] [''rbc.csv''] 0 3 []
     = [((2024, 3, 1), ''RENT PAYMENT'', - 1200)]
   \<and> (\<exists>t \<in> set [((2024, 3, 1), ''RENT PAYMENT'', ''Housing'', - 1200)].
        t_description t = ''RENT PAYMENT'' \<and>
        py_strptime py0 ''3/1/2024'' ''%m/%d/%Y'' = Some (t_date t) \<and>
        py_float py0 ''-1200.00'' = Some (t_amount t))"
proof -
  let ?row = "[''Chequing'', ''1001'', ''3/1/2024'', '''', ''RENT PAYMENT'', '''', ''-1200.00'', '''']"
  let ?head = "[''Account Type'', ''Account Number'', ''Transaction Date'', ''Cheque Number'',
               ''Description 1'', ''Description 2'', ''CAD$'', ''USD$'']"
  let ?g = "\<lparr>transactions = [((2024, 3, 1), ''RENT PAYMENT'', ''Housing'', - 1200)],
            MONTHLY_COSTS = [], categories = [(''RENT PAYMENT'', ''Housing'')],
            interactive = True, console = []\<rparr>"
  let ?s = "ExpenseGrabber [] [] True [''Housing'']"
  have 1: "rbc_row py0 3 ?row ?s = Inr ?g"
    by (simp add: rbc_row_def rbc_category_def add_category_def get_unique_categories_def
        py_index_def dict_get_def ExpenseGrabber_def py0_simps date_month_def Let_def)
  have 2: "rbc_month_and_sign py0 3 ?row"
    by (simp add: rbc_month_and_sign_def py0_simps date_month_def)
  have 3: "main py0 example_rent_files (\<lambda>f. None) ''rbc.csv'' ''03/24'' ''rbc'' [''Housing'']
     = Inr (?g, save_categories [(''RENT PAYMENT'', ''Housing'')] (\<lambda>f. None))"
    by (simp add: main_def get_categories_def process_transactions_def parse_rbc_def
        example_rent_files_def rbc_row_def rbc_category_def add_category_def
        get_unique_categories_def py_index_def dict_get_def ExpenseGrabber_def py0_simps
        date_month_def Let_def t_date_def)
  have 5: "py_strptime py0 ''03/24'' ''%m/%y'' = Some (2024, 3, 1)"
    by (simp add: py0_simps)
  have 6: "date_month (2024, 3, 1) = 3"
    by (simp add: date_month_def)
  have 7: "split_chr CHR '','' ''rbc'' = [''rbc'']" "split_chr CHR '','' ''rbc.csv'' = [''rbc.csv'']"
    by simp_all
  have 8: "example_rent_files ''rbc.csv'' = Some [?head, ?row]"
    by (simp add: example_rent_files_def)
  have 9: "cli_selected py0 example_rent_files [''rbc''] [''rbc.csv''] 0 3 []
     = [((2024, 3, 1), ''RENT PAYMENT'', - 1200)]"
    by (simp add: rows_of_def example_rent_files_def List.map_filter_def rbc_selected_any_def
        py0_simps date_month_def)
  note inst = cli_excludes_no_row[where cats = "[]" and inp = "[''Housing'']"
      and description = "''RENT PAYMENT''" and L = py0 and fs = example_rent_files
      and tfs = "\<lambda>f. None" and file_arg = "''rbc.csv''" and date_arg = "''03/24''"
      and bank_arg = "''rbc''" and g = ?g
      and tfs' = "save_categories [(''RENT PAYMENT'', ''Housing'')] (\<lambda>f. None)"
      and s = ?s and s' = ?g and banks = "[]" and files = "[]" and i = 0 and month = 3
      and row = ?row and date = "(2024, 3, 1)" and k = 0 and rows = "[?head, ?row]"]
  from inst have 4: "MONTHLY_COSTS ?s = []"
    by blast
  have hyp: "main py0 example_rent_files (\<lambda>f. None) ''rbc.csv'' ''03/24'' ''rbc'' [''Housing'']
        = Inr (?g, save_categories [(''RENT PAYMENT'', ''Housing'')] (\<lambda>f. None)) \<and>
      py_strptime py0 ''03/24'' ''%m/%y'' = Some (2024, 3, 1) \<and>
      0 < length (split_chr CHR '','' ''rbc'') \<and>
      split_chr CHR '','' ''rbc'' ! 0 = ''rbc'' \<and>
      example_rent_files (split_chr CHR '','' ''rbc.csv'' ! 0) = Some [?head, ?row] \<and>
      ?row \<in> set [?head, ?row] \<and>
      rbc_month_and_sign py0 (date_month (2024, 3, 1)) ?row"
    using 2 3 5 8 by (simp only: 6 7) simp
  from inst hyp have "\<exists>t \<in> set (transactions ?g). t_description t = ?row ! 4 \<and>
            py_strptime py0 (?row ! 2) ''%m/%d/%Y'' = Some (t_date t) \<and>
            py_float py0 (?row ! 6) = Some (t_amount t)"
    by blast
  then have 10: "\<exists>t \<in> set [((2024, 3, 1), ''RENT PAYMENT'', ''Housing'', - 1200)].
        t_description t = ''RENT PAYMENT'' \<and>
        py_strptime py0 ''3/1/2024'' ''%m/%d/%Y'' = Some (t_date t) \<and>
        py_float py0 ''-1200.00'' = Some (t_amount t)"
    by simp
  from 1 2 3 4 9 10 show ?thesis by blast
qed

end
